theory Spec2Isabelle
  imports Complex_Main
begin

section \<open>Python values and exceptions\<close>

text \<open>
  The scraper of \<^verbatim>\<open>src/scraper.py\<close> is modelled as pure functions over an explicit
  host environment (clock, time zone, remote site, HTML and JSON parsers) and an explicit
  world (what has been printed, requested and written). An exception is a value
  \<open>Inl e\<close> of a sum type; it propagates through every caller, as nothing in the source
  catches one. A method keeps its name without the leading underscore
  (\<^verbatim>\<open>_format_response\<close> is \<open>format_response\<close>).
\<close>

datatype error =
    KeyError string
  | TypeError
  | ValueError
  | OverflowError
  | OSError
  | NameError string
  | Exception string
  | TransportError string
  | ParserError string
  | JSONDecodeError string

text \<open>
  A Python \<^verbatim>\<open>float\<close>: finite ones are kept as the rational they denote; \<^verbatim>\<open>json.loads\<close>
  also accepts \<^verbatim>\<open>NaN\<close> and \<^verbatim>\<open>Infinity\<close>.
\<close>

datatype pyfloat = Finite rat | Infinity bool | NaN

text \<open>
  What \<^verbatim>\<open>json.loads\<close> returns: \<^verbatim>\<open>None\<close>, a \<^verbatim>\<open>bool\<close>, an \<^verbatim>\<open>int\<close>, a \<^verbatim>\<open>float\<close>, a \<^verbatim>\<open>str\<close>,
  a \<^verbatim>\<open>list\<close> or a \<^verbatim>\<open>dict\<close> with string keys. A dict is an association list in insertion
  order; the first binding of a key is the one a lookup finds.
\<close>

datatype pyval =
    PNone
  | PBool bool
  | PInt int
  | PFloat pyfloat
  | PStr string
  | PList "pyval list"
  | PDict "(string \<times> pyval) list"

definition and_then :: "error + 'a \<Rightarrow> ('a \<Rightarrow> error + 'b) \<Rightarrow> error + 'b" where
  "and_then m f = (case m of Inl e \<Rightarrow> Inl e | Inr x \<Rightarrow> f x)"

text \<open>\<^verbatim>\<open>obj[key]\<close> with a string key: only a dict can be subscripted by a string.\<close>

fun getitem :: "pyval \<Rightarrow> string \<Rightarrow> error + pyval" where
  "getitem (PDict kvs) k = (case map_of kvs k of None \<Rightarrow> Inl (KeyError k) | Some v \<Rightarrow> Inr v)"
| "getitem _ k = Inl TypeError"

text \<open>
  \<^verbatim>\<open>for item in obj\<close>: a list yields its elements, a dict its keys, a string its
  characters; nothing else is iterable.
\<close>

fun py_iter :: "pyval \<Rightarrow> error + pyval list" where
  "py_iter (PList xs) = Inr xs"
| "py_iter (PDict kvs) = Inr (map PStr (rev (remdups (rev (map fst kvs)))))"
| "py_iter (PStr s) = Inr (map (\<lambda>c. PStr [c]) s)"
| "py_iter _ = Inl TypeError"

section \<open>The host environment and the world\<close>

record datetime =
  dt_year :: int
  dt_month :: int
  dt_day :: int
  dt_hour :: int
  dt_minute :: int
  dt_second :: int
  dt_microsecond :: int

datatype request = GET string | POST string "(string \<times> string option) list"

text \<open>An element of a parsed HTML document: tag, attributes, child elements.\<close>

datatype node = Element string "(string \<times> string) list" "node list"

text \<open>
  Everything the program reads from outside itself.
  \<^item> \<open>clock k\<close>: the local date and time returned by the \<open>k\<close>-th call of \<^verbatim>\<open>datetime.now()\<close>.
  \<^item> \<open>utcoffset t\<close>: seconds east of UTC of the host's time zone at epoch second \<open>t\<close>.
  \<^item> \<open>localtime_error t\<close>: the exception with which the platform refuses the epoch second
    \<open>t\<close>, if it does (\<^verbatim>\<open>OverflowError\<close> beyond its \<^verbatim>\<open>time_t\<close>, \<^verbatim>\<open>OSError\<close> where its
    \<^verbatim>\<open>localtime\<close> fails).
  \<^item> \<open>float_div n\<close>: the float \<^verbatim>\<open>n / 1000.0\<close>, as the rational it denotes. Nothing is
    assumed about its rounding here; a theorem that needs accuracy says how much.
  \<^item> \<open>int_of_str s\<close>: the integer \<^verbatim>\<open>int(s)\<close> of a string, \<open>None\<close> where it raises.
  \<^item> \<open>server reqs\<close>: the body of the response to the last request of the history
    \<open>reqs\<close>, or the exception the transport raises. The history stands for the cookies
    of the session and the state of the remote site.
  \<^item> \<open>parse_html\<close>: \<^verbatim>\<open>PyQuery(text)\<close>, the root elements of the parsed document.
  \<^item> \<open>json_loads\<close>, \<open>json_dumps\<close>: the \<^verbatim>\<open>json\<close> module.
\<close>

record env =
  clock :: "nat \<Rightarrow> datetime"
  utcoffset :: "int \<Rightarrow> int"
  localtime_error :: "int \<Rightarrow> error option"
  float_div :: "int \<Rightarrow> rat"
  int_of_str :: "string \<Rightarrow> int option"
  server :: "request list \<Rightarrow> error + string"
  parse_html :: "string \<Rightarrow> error + node list"
  json_loads :: "string \<Rightarrow> error + pyval"
  json_dumps :: "pyval \<Rightarrow> string"

text \<open>
  Everything the program changes: how often the clock was read, the lines printed, the
  requests sent through the session, the files written.
\<close>

record world =
  reads :: nat
  stdout :: "string list"
  sent :: "request list"
  files :: "(string \<times> string) list"

section \<open>Formatting dates\<close>

definition digit_char :: "nat \<Rightarrow> char" where
  "digit_char d = char_of (48 + d)"

fun dec :: "nat \<Rightarrow> string" where
  "dec n = (if n < 10 then [digit_char n] else dec (n div 10) @ [digit_char (n mod 10)])"

declare dec.simps [simp del]

text \<open>A number in decimal, padded with zeros on the left to at least \<open>w\<close> characters.\<close>

definition zpad :: "nat \<Rightarrow> int \<Rightarrow> string" where
  "zpad w n = (let s = dec (nat n) in replicate (w - length s) CHR ''0'' @ s)"

text \<open>
  \<^verbatim>\<open>strftime\<close> for the directives the program uses (\<^verbatim>\<open>%Y %m %d %H %M %S\<close>); any
  other character pair is copied. As the C library writes them, the year is not padded
  (year 999 is \<^verbatim>\<open>999\<close>) and the other fields are padded to two digits.
\<close>

definition directive :: "char \<Rightarrow> datetime \<Rightarrow> string" where
  "directive c dt =
     (if c = CHR ''Y'' then dec (nat (dt_year dt))
      else if c = CHR ''m'' then zpad 2 (dt_month dt)
      else if c = CHR ''d'' then zpad 2 (dt_day dt)
      else if c = CHR ''H'' then zpad 2 (dt_hour dt)
      else if c = CHR ''M'' then zpad 2 (dt_minute dt)
      else if c = CHR ''S'' then zpad 2 (dt_second dt)
      else [CHR ''%'', c])"

fun strftime :: "string \<Rightarrow> datetime \<Rightarrow> string" where
  "strftime [] dt = []"
| "strftime [c] dt = [c]"
| "strftime (c # d # rest) dt =
     (if c = CHR ''%'' then directive d dt @ strftime rest dt
      else c # strftime (d # rest) dt)"

section \<open>Epoch seconds to local calendar time\<close>

definition DAYS_IN_MONTH :: "int list" where
  "DAYS_IN_MONTH = [-1, 31, 28, 31, 30, 31, 30, 31, 31, 30, 31, 30, 31]"

definition DAYS_BEFORE_MONTH :: "int list" where
  "DAYS_BEFORE_MONTH = [-1, 0, 31, 59, 90, 120, 151, 181, 212, 243, 273, 304, 334]"

text \<open>
  The proleptic Gregorian date of a day number (day 1 is 0001-01-01), by the algorithm
  of Python's \<^verbatim>\<open>datetime\<close> module (\<^verbatim>\<open>_ord2ymd\<close>): cycles of 400, 100, 4 and 1 years.
\<close>

definition ord2ymd :: "int \<Rightarrow> int \<times> int \<times> int" where
  "ord2ymd ordinal =
     (let n = ordinal - 1;
          n400 = n div 146097; n = n mod 146097;
          n100 = n div 36524; n = n mod 36524;
          n4 = n div 1461; n = n mod 1461;
          n1 = n div 365; n = n mod 365;
          year = n400 * 400 + 1 + n100 * 100 + n4 * 4 + n1
      in if n1 = 4 \<or> n100 = 4 then (year - 1, 12, 31)
         else
           let leapyear = (n1 = 3 \<and> (n4 \<noteq> 24 \<or> n100 = 3));
               month = (n + 50) div 32;
               preceding = DAYS_BEFORE_MONTH ! nat month
                           + (if month > 2 \<and> leapyear then 1 else 0)
           in if preceding > n
              then let month = month - 1;
                       preceding = preceding - (DAYS_IN_MONTH ! nat month
                                     + (if month = 2 \<and> leapyear then 1 else 0))
                   in (year, month, n - preceding + 1)
              else (year, month, n - preceding + 1))"

text \<open>
  \<^verbatim>\<open>time.localtime(t)\<close>: the fields year, month, day, hour, minute, second of the local
  time, unless the platform refuses \<open>t\<close>. Day 719163 is 1970-01-01.
\<close>

definition localtime ::
  "env \<Rightarrow> int \<Rightarrow> error + int \<times> int \<times> int \<times> int \<times> int \<times> int" where
  "localtime E t =
     (case localtime_error E t of
        Some e \<Rightarrow> Inl e
      | None \<Rightarrow>
         (let loc = t + utcoffset E t;
              (y, m, d) = ord2ymd (loc div 86400 + 719163);
              sod = loc mod 86400
          in Inr (y, m, d, sod div 3600, sod mod 3600 div 60, sod mod 60)))"

text \<open>
  The day number of a date and the seconds since 0001-01-01 of a date and time, as the
  \<^verbatim>\<open>datetime\<close> module computes them (\<^verbatim>\<open>ymd_to_ord\<close>, \<^verbatim>\<open>utc_to_seconds\<close>); the latter
  refuses a year outside 1..9999.
\<close>

definition is_leap :: "int \<Rightarrow> bool" where
  "is_leap year = (year mod 4 = 0 \<and> (year mod 100 \<noteq> 0 \<or> year mod 400 = 0))"

definition days_before_year :: "int \<Rightarrow> int" where
  "days_before_year year =
     (let y = year - 1 in y * 365 + y div 4 - y div 100 + y div 400)"

definition days_before_month :: "int \<Rightarrow> int \<Rightarrow> int" where
  "days_before_month year month =
     DAYS_BEFORE_MONTH ! nat month + (if month > 2 \<and> is_leap year then 1 else 0)"

definition ymd_to_ord :: "int \<Rightarrow> int \<Rightarrow> int \<Rightarrow> int" where
  "ymd_to_ord year month day = days_before_year year + days_before_month year month + day"

definition utc_to_seconds :: "int \<Rightarrow> int \<Rightarrow> int \<Rightarrow> int \<Rightarrow> int \<Rightarrow> int \<Rightarrow> error + int" where
  "utc_to_seconds year month day hour minute second =
     (if year < 1 \<or> year > 9999 then Inl ValueError
      else Inr (((ymd_to_ord year month day * 24 + hour) * 60 + minute) * 60 + second))"

text \<open>The local time of an epoch second, in seconds since 0001-01-01.\<close>

definition local_seconds :: "env \<Rightarrow> int \<Rightarrow> error + int" where
  "local_seconds E t =
     and_then (localtime E t) (\<lambda>(y, m, d, hh, mm, ss). utc_to_seconds y m d hh mm ss)"

text \<open>Python's \<^verbatim>\<open>round\<close>: to the nearest integer, a tie to the even one.\<close>

definition py_round :: "rat \<Rightarrow> int" where
  "py_round q =
     (let f = \<lfloor>q\<rfloor>; d = q - of_int f
      in if d < 1 / 2 then f else if d > 1 / 2 then f + 1
         else if even f then f else f + 1)"

text \<open>\<^verbatim>\<open>math.modf\<close>: fractional and integral part, both with the sign of the argument.\<close>

definition modf :: "rat \<Rightarrow> rat \<times> int" where
  "modf t = (let i = (if t < 0 then \<lceil>t\<rceil> else \<lfloor>t\<rfloor>) in (t - of_int i, i))"

text \<open>
  The local date and time of the whole epoch second \<open>timet\<close> with \<open>us\<close> microseconds.
  To find out whether the local time is the second of two equal ones (a fold), the
  library also converts the second 24 hours earlier and, when the clock was set back in
  between, the second before that change; each conversion can raise, and a year outside
  1..9999 is a \<^verbatim>\<open>ValueError\<close> in each. The fold itself does not show in the fields.
\<close>

definition max_fold_seconds :: int where
  "max_fold_seconds = 24 * 3600"

definition datetime_from_timet_and_us :: "env \<Rightarrow> int \<Rightarrow> int \<Rightarrow> error + datetime" where
  "datetime_from_timet_and_us E timet us =
     and_then (localtime E timet) (\<lambda>(year, month, day, hour, minute, ss).
       let second = min 59 ss
       in and_then (utc_to_seconds year month day hour minute second) (\<lambda>result_seconds.
          and_then (local_seconds E (timet - max_fold_seconds)) (\<lambda>probe_seconds.
            let transition = result_seconds - probe_seconds - max_fold_seconds
            in and_then (if transition < 0
                         then local_seconds E (timet + transition)
                         else Inr probe_seconds) (\<lambda>_.
               Inr \<lparr>dt_year = year, dt_month = month, dt_day = day, dt_hour = hour,
                     dt_minute = minute, dt_second = second, dt_microsecond = us\<rparr>))))"

text \<open>
  \<^verbatim>\<open>datetime.datetime.fromtimestamp(t)\<close>: the fraction is rounded to microseconds
  and carried into the seconds, which are then converted.
\<close>

definition fromtimestamp :: "env \<Rightarrow> rat \<Rightarrow> error + datetime" where
  "fromtimestamp E t =
     (let (frac, t) = modf t;
          us = py_round (frac * 1000000);
          (t, us) = (if us \<ge> 1000000 then (t + 1, us - 1000000)
                     else if us < 0 then (t - 1, us + 1000000)
                     else (t, us))
      in datetime_from_timet_and_us E t us)"

section \<open>The response normalizer\<close>

text \<open>\<^verbatim>\<open>int(x)\<close> of a value that \<^verbatim>\<open>json.loads\<close> can return.\<close>

fun py_int :: "env \<Rightarrow> pyval \<Rightarrow> error + int" where
  "py_int E (PInt n) = Inr n"
| "py_int E (PBool b) = Inr (if b then 1 else 0)"
| "py_int E (PFloat (Finite q)) = Inr (if q < 0 then \<lceil>q\<rceil> else \<lfloor>q\<rfloor>)"
| "py_int E (PFloat (Infinity _)) = Inl OverflowError"
| "py_int E (PFloat NaN) = Inl ValueError"
| "py_int E (PStr s) = (case int_of_str E s of None \<Rightarrow> Inl ValueError | Some n \<Rightarrow> Inr n)"
| "py_int E _ = Inl TypeError"

definition format_timestamp :: "env \<Rightarrow> pyval \<Rightarrow> error + string" where
  "format_timestamp E timestamp =
     and_then (py_int E timestamp) (\<lambda>n.
     and_then (fromtimestamp E (float_div E n)) (\<lambda>dt.
     Inr (strftime ''%Y-%m-%d %H:%M:%S'' dt)))"

text \<open>One step of the comprehension of \<^verbatim>\<open>_format_response\<close>: the record of one item.\<close>

definition format_item :: "env \<Rightarrow> pyval \<Rightarrow> error + pyval" where
  "format_item E item =
     and_then (getitem item ''timestamp'') (\<lambda>ts.
     and_then (format_timestamp E ts) (\<lambda>s.
     and_then (getitem item ''value'') (\<lambda>v.
     Inr (PDict [(''data'', PStr s), (''value'', v)]))))"

fun format_items :: "env \<Rightarrow> pyval list \<Rightarrow> error + pyval list" where
  "format_items E [] = Inr []"
| "format_items E (item # rest) =
     and_then (format_item E item) (\<lambda>r.
     and_then (format_items E rest) (\<lambda>rs.
     Inr (r # rs)))"

definition format_response :: "env \<Rightarrow> pyval \<Rightarrow> error + pyval list" where
  "format_response E response_data =
     and_then (getitem response_data ''values'') (\<lambda>a.
     and_then (getitem a ''A+'') (\<lambda>b.
     and_then (getitem b ''total'') (\<lambda>c.
     and_then (getitem c ''data'') (\<lambda>d.
     and_then (py_iter d) (\<lambda>items.
     format_items E items)))))"

section \<open>The URL builder\<close>

record scraper =
  login :: string
  password :: string
  meter_id :: string

definition BASE_HOST :: string where
  "BASE_HOST = ''https://www.e-st.lv''"

definition LOGIN_URL :: string where
  "LOGIN_URL = BASE_HOST @ ''/lv/private/user-authentification/''"

definition DATA_URL :: string where
  "DATA_URL = BASE_HOST @ ''/lv/private/paterini-un-norekini/paterinu-grafiki/''"

definition PERIOD_DAY :: string where "PERIOD_DAY = ''D''"
definition PERIOD_MONTH :: string where "PERIOD_MONTH = ''M''"
definition PERIOD_YEAR :: string where "PERIOD_YEAR = ''Y''"

definition GRANULARITY_NATIVE :: string where "GRANULARITY_NATIVE = ''NATIVE''"
definition GRANULARITY_HOUR :: string where "GRANULARITY_HOUR = ''H''"
definition GRANULARITY_DAY :: string where "GRANULARITY_DAY = ''D''"

text \<open>
  \<^verbatim>\<open>d[k] = v\<close> on a dict kept in insertion order: an existing key keeps its place.
\<close>

fun dict_set :: "'k \<Rightarrow> 'v \<Rightarrow> ('k \<times> 'v) list \<Rightarrow> ('k \<times> 'v) list" where
  "dict_set k v [] = [(k, v)]"
| "dict_set k v ((k', v') # kvs) =
     (if k' = k then (k, v) # kvs else (k', v') # dict_set k v kvs)"

text \<open>
  \<^verbatim>\<open>urllib.parse.quote_plus\<close>: letters, digits and \<^verbatim>\<open>_.-~\<close> are kept, a space
  becomes \<^verbatim>\<open>+\<close>, every other character is written as the \<^verbatim>\<open>%XX\<close> of its UTF-8 bytes.
  A \<open>char\<close> stands for the code point of its number (0 to 255).
\<close>

definition is_unreserved :: "char \<Rightarrow> bool" where
  "is_unreserved c =
     (let n = (of_char c :: nat)
      in (65 \<le> n \<and> n \<le> 90) \<or> (97 \<le> n \<and> n \<le> 122) \<or> (48 \<le> n \<and> n \<le> 57)
         \<or> c = CHR ''_'' \<or> c = CHR ''.'' \<or> c = CHR ''-'' \<or> c = CHR ''~'')"

definition percent :: "nat \<Rightarrow> string" where
  "percent b = [CHR ''%'', ''0123456789ABCDEF'' ! (b div 16), ''0123456789ABCDEF'' ! (b mod 16)]"

definition quote_char :: "char \<Rightarrow> string" where
  "quote_char c =
     (let n = (of_char c :: nat)
      in if is_unreserved c then [c]
         else if c = CHR '' '' then ''+''
         else if n < 128 then percent n
         else percent (192 + n div 64) @ percent (128 + n mod 64))"

definition quote_plus :: "string \<Rightarrow> string" where
  "quote_plus s = concat (map quote_char s)"

text \<open>\<^verbatim>\<open>str(v)\<close> of a parameter value: a string, or \<^verbatim>\<open>None\<close>.\<close>

definition py_str :: "string option \<Rightarrow> string" where
  "py_str v = (case v of None \<Rightarrow> ''None'' | Some s \<Rightarrow> s)"

fun join_amp :: "string list \<Rightarrow> string" where
  "join_amp [] = []"
| "join_amp [x] = x"
| "join_amp (x # y # xs) = x @ ''&'' @ join_amp (y # xs)"

definition urlencode :: "(string \<times> string option) list \<Rightarrow> string" where
  "urlencode params =
     join_amp (map (\<lambda>(k, v). quote_plus k @ ''='' @ quote_plus (py_str v)) params)"

text \<open>\<^verbatim>\<open>datetime.datetime.now().strftime(options)\<close>: one reading of the clock.\<close>

definition format_now :: "env \<Rightarrow> string \<Rightarrow> world \<Rightarrow> string \<times> world" where
  "format_now E options w = (strftime options (clock E (reads w)), w\<lparr>reads := Suc (reads w)\<rparr>)"

definition get_current_year :: "env \<Rightarrow> world \<Rightarrow> string \<times> world" where
  "get_current_year E = format_now E ''%Y''"

definition get_current_month :: "env \<Rightarrow> world \<Rightarrow> string \<times> world" where
  "get_current_month E = format_now E ''%m''"

definition get_current_day :: "env \<Rightarrow> world \<Rightarrow> string \<times> world" where
  "get_current_day E = format_now E ''%d''"

text \<open>
  \<^verbatim>\<open>x or default()\<close> for an argument that is a string or \<^verbatim>\<open>None\<close>: the default is
  computed only when \<open>x\<close> is \<^verbatim>\<open>None\<close> or the empty string.
\<close>

definition truthy :: "string option \<Rightarrow> bool" where
  "truthy x = (case x of None \<Rightarrow> False | Some s \<Rightarrow> s \<noteq> [])"

definition py_or :: "string option \<Rightarrow> (world \<Rightarrow> string \<times> world) \<Rightarrow> world \<Rightarrow> string \<times> world" where
  "py_or x dflt w = (case x of None \<Rightarrow> dflt w | Some s \<Rightarrow> if s \<noteq> [] then (s, w) else dflt w)"

text \<open>The dict \<^verbatim>\<open>params\<close> of \<^verbatim>\<open>_get_data_url\<close> as it stands before the URL is assembled.\<close>

definition data_params ::
  "env \<Rightarrow> scraper \<Rightarrow> string option \<Rightarrow> string option \<Rightarrow> string option \<Rightarrow> string option
     \<Rightarrow> string option \<Rightarrow> world \<Rightarrow> (string \<times> string option) list \<times> world" where
  "data_params E self period year month day granularity w =
     (let params = [(''counterNumber'', Some (meter_id self)), (''period'', period)];
          (year, w) = py_or year (get_current_year E) w;
          params = (if period = Some PERIOD_YEAR
                    then dict_set ''year'' (Some year) params else params);
          (params, w) =
            (if period = Some PERIOD_MONTH
             then let params = dict_set ''year'' (Some year) params;
                      (m, w) = py_or month (get_current_month E) w;
                      params = dict_set ''month'' (Some m) params;
                      params = dict_set ''granularity'' granularity params
                  in (params, w)
             else (params, w))
      in if period = Some PERIOD_DAY
         then let (month, w) = py_or month (get_current_month E) w;
                  (day, w) = py_or day (get_current_day E) w;
                  params = dict_set ''date'' (Some (day @ ''.'' @ month @ ''.'' @ year)) params;
                  params = dict_set ''granularity'' granularity params
              in (params, w)
         else (params, w))"

text \<open>\<^verbatim>\<open>_get_data_url\<close>: the URL is printed, then returned.\<close>

definition get_data_url ::
  "env \<Rightarrow> scraper \<Rightarrow> string option \<Rightarrow> string option \<Rightarrow> string option \<Rightarrow> string option
     \<Rightarrow> string option \<Rightarrow> world \<Rightarrow> string \<times> world" where
  "get_data_url E self period year month day granularity w =
     (let (params, w) = data_params E self period year month day granularity w;
          url = DATA_URL @ ''?'' @ urlencode params
      in (url, w\<lparr>stdout := stdout w @ [url]\<rparr>))"

section \<open>Selecting elements of a parsed page\<close>

fun tag :: "node \<Rightarrow> string" where
  "tag (Element t a cs) = t"

fun attrs :: "node \<Rightarrow> (string \<times> string) list" where
  "attrs (Element t a cs) = a"

fun descendants_or_self :: "node \<Rightarrow> node list" where
  "descendants_or_self (Element t a cs) =
     Element t a cs # concat (map descendants_or_self cs)"

text \<open>Every element of the document, in document order.\<close>

definition all_elements :: "node list \<Rightarrow> node list" where
  "all_elements doc = concat (map descendants_or_self doc)"

definition is_space :: "char \<Rightarrow> bool" where
  "is_space c = (c = CHR '' '' \<or> c = CHR 0x09 \<or> c = CHR 0x0A \<or> c = CHR 0x0D)"

fun tokens :: "string \<Rightarrow> string \<Rightarrow> string list" where
  "tokens cur [] = (if cur = [] then [] else [cur])"
| "tokens cur (c # cs) =
     (if is_space c then (if cur = [] then tokens [] cs else cur # tokens [] cs)
      else tokens (cur @ [c]) cs)"

text \<open>The class selector \<^verbatim>\<open>.c\<close>: \<open>c\<close> is one of the space-separated words of \<^verbatim>\<open>class\<close>.\<close>

definition has_class :: "node \<Rightarrow> string \<Rightarrow> bool" where
  "has_class n c =
     (case map_of (attrs n) ''class'' of None \<Rightarrow> False | Some s \<Rightarrow> c \<in> set (tokens [] s))"

text \<open>\<^verbatim>\<open>root('input[name=field]')\<close> and \<^verbatim>\<open>root('div.chart')\<close>.\<close>

definition select_input :: "node list \<Rightarrow> string \<Rightarrow> node list" where
  "select_input doc field =
     filter (\<lambda>n. tag n = ''input'' \<and> map_of (attrs n) ''name'' = Some field) (all_elements doc)"

definition select_div_chart :: "node list \<Rightarrow> node list" where
  "select_div_chart doc =
     filter (\<lambda>n. tag n = ''div'' \<and> has_class n ''chart'') (all_elements doc)"

text \<open>\<^verbatim>\<open>.attr(name)\<close>: the attribute of the first selected element, \<^verbatim>\<open>None\<close> without one.\<close>

definition attr :: "node list \<Rightarrow> string \<Rightarrow> string option" where
  "attr sel name = (case sel of [] \<Rightarrow> None | n # _ \<Rightarrow> map_of (attrs n) name)"

section \<open>The authenticated fetch\<close>

text \<open>The tuple \<^verbatim>\<open>fields\<close> of \<^verbatim>\<open>_fetch_remote_data\<close>.\<close>

definition login_fields :: "string list" where
  "login_fields = [''_token'', ''returnUrl'', ''login'', ''password'']"

text \<open>The dict \<^verbatim>\<open>values\<close> posted to the login endpoint, from the page the GET returned.\<close>

definition login_values :: "scraper \<Rightarrow> node list \<Rightarrow> (string \<times> string option) list" where
  "login_values self doc =
     (let values = foldl (\<lambda>values field.
                      dict_set field (attr (select_input doc field) ''value'') values) [] login_fields;
          values = dict_set ''login'' (Some (login self)) values;
          values = dict_set ''password'' (Some (password self)) values
      in values)"

text \<open>\<^verbatim>\<open>json.loads(values)\<close>: \<^verbatim>\<open>None\<close> is not a string.\<close>

definition loads :: "env \<Rightarrow> string option \<Rightarrow> error + pyval" where
  "loads E values = (case values of None \<Rightarrow> Inl TypeError | Some s \<Rightarrow> json_loads E s)"

definition fetch_remote_data ::
  "env \<Rightarrow> scraper \<Rightarrow> string option \<Rightarrow> string option \<Rightarrow> string option \<Rightarrow> string option
     \<Rightarrow> string option \<Rightarrow> world \<Rightarrow> (error + pyval) \<times> world" where
  "fetch_remote_data E self period year month day granularity w =
     (let (url, w) = get_data_url E self period year month day granularity w;
          w = w\<lparr>sent := sent w @ [GET url]\<rparr>
      in case server E (sent w) of Inl e \<Rightarrow> (Inl e, w) | Inr text \<Rightarrow>
         (case parse_html E text of Inl e \<Rightarrow> (Inl e, w) | Inr doc \<Rightarrow>
         (let values = login_values self doc;
              w = w\<lparr>sent := sent w @ [POST LOGIN_URL values]\<rparr>
          in case server E (sent w) of Inl e \<Rightarrow> (Inl e, w) | Inr text \<Rightarrow>
             (case parse_html E text of Inl e \<Rightarrow> (Inl e, w) | Inr doc \<Rightarrow>
                (loads E (attr (select_div_chart doc) ''data-values''), w)))))"

definition get_day_data ::
  "env \<Rightarrow> scraper \<Rightarrow> string option \<Rightarrow> string option \<Rightarrow> string option \<Rightarrow> world
     \<Rightarrow> (error + pyval list) \<times> world" where
  "get_day_data E self year month day w =
     (let (response, w) = fetch_remote_data E self (Some PERIOD_DAY) year month day
                            (Some GRANULARITY_HOUR) w
      in (and_then response (format_response E), w))"

definition get_month_data ::
  "env \<Rightarrow> scraper \<Rightarrow> string option \<Rightarrow> string option \<Rightarrow> world \<Rightarrow> (error + pyval list) \<times> world" where
  "get_month_data E self year month w =
     (let (response, w) = fetch_remote_data E self (Some PERIOD_MONTH) year month None
                            (Some GRANULARITY_DAY) w
      in (and_then response (format_response E), w))"

definition get_year_data ::
  "env \<Rightarrow> scraper \<Rightarrow> string option \<Rightarrow> world \<Rightarrow> (error + pyval list) \<times> world" where
  "get_year_data E self year w =
     (let (response, w) = fetch_remote_data E self (Some PERIOD_YEAR) year None None None w
      in (and_then response (format_response E), w))"

section \<open>The command line\<close>

record opts =
  opt_username :: "string option"
  opt_password :: "string option"
  opt_meter :: "string option"
  opt_period :: string
  opt_year :: "string option"
  opt_month :: "string option"
  opt_day :: "string option"
  opt_outfile :: "string option"

text \<open>
  The three \<^verbatim>\<open>if\<close> statements that choose the fetch. The variable \<^verbatim>\<open>data\<close> is
  \<open>None\<close> while no assignment has bound it.
\<close>

definition assign :: "(error + pyval list) \<times> world \<Rightarrow> (error + pyval option) \<times> world" where
  "assign rw = (case rw of (r, w) \<Rightarrow> (and_then r (\<lambda>recs. Inr (Some (PList recs))), w))"

definition dispatch :: "env \<Rightarrow> scraper \<Rightarrow> opts \<Rightarrow> world \<Rightarrow> (error + pyval option) \<times> world" where
  "dispatch E scraper opts w =
     (let (r, w) = (if opt_period opts = ''year''
                    then assign (get_year_data E scraper (opt_year opts) w)
                    else (Inr None, w))
      in case r of Inl e \<Rightarrow> (Inl e, w) | Inr data \<Rightarrow>
         (let (r, w) = (if opt_period opts = ''month''
                        then assign (get_month_data E scraper (opt_year opts) (opt_month opts) w)
                        else (Inr data, w))
          in case r of Inl e \<Rightarrow> (Inl e, w) | Inr data \<Rightarrow>
             (if opt_period opts = ''day''
              then assign (get_day_data E scraper (opt_year opts) (opt_month opts)
                             (opt_day opts) w)
              else (Inr data, w))))"

text \<open>
  The program after \<^verbatim>\<open>parse_args\<close>. Opening and writing the output file is taken to
  succeed.
\<close>

definition main :: "env \<Rightarrow> opts \<Rightarrow> world \<Rightarrow> (error + unit) \<times> world" where
  "main E opts w =
     (if \<not> truthy (opt_username opts) \<or> \<not> truthy (opt_password opts)
      then (Inl (Exception ''Username and/or password must be set''), w)
      else if \<not> truthy (opt_meter opts)
      then (Inl (Exception ''Electricity meter ID must be set''), w)
      else
        let scraper = \<lparr>login = py_str (opt_username opts), password = py_str (opt_password opts),
                       meter_id = py_str (opt_meter opts)\<rparr>;
            (r, w) = dispatch E scraper opts w
        in case r of Inl e \<Rightarrow> (Inl e, w) | Inr data \<Rightarrow>
           (case data of None \<Rightarrow> (Inl (NameError ''data''), w) | Some v \<Rightarrow>
              (let text = json_dumps E v
               in if truthy (opt_outfile opts)
                  then (Inr (), w\<lparr>files := dict_set (py_str (opt_outfile opts)) text (files w)\<rparr>)
                  else (Inr (), w\<lparr>stdout := stdout w @ [text]\<rparr>))))"

section \<open>Notions of the specification\<close>

text \<open>
  A string fits a pattern when it has the pattern's length, a decimal digit wherever the
  pattern has \<^verbatim>\<open>d\<close>, and the pattern's own character everywhere else.
\<close>

definition is_digit :: "char \<Rightarrow> bool" where
  "is_digit c = (48 \<le> (of_char c :: nat) \<and> (of_char c :: nat) \<le> 57)"

fun fits :: "string \<Rightarrow> string \<Rightarrow> bool" where
  "fits [] [] = True"
| "fits (p # ps) (c # cs) = ((if p = CHR ''d'' then is_digit c else c = p) \<and> fits ps cs)"
| "fits _ _ = False"

text \<open>The calendar date that a reading of the clock shows.\<close>

definition date_of :: "datetime \<Rightarrow> int \<times> int \<times> int" where
  "date_of dt = (dt_year dt, dt_month dt, dt_day dt)"

text \<open>The calendar year of the local date of an epoch second.\<close>

definition local_year :: "env \<Rightarrow> int \<Rightarrow> int" where
  "local_year E t = fst (ord2ymd ((t + utcoffset E t) div 86400 + 719163))"

text \<open>\<^verbatim>\<open>x or d\<close> as a value: \<open>d\<close> when \<open>x\<close> is \<^verbatim>\<open>None\<close> or empty.\<close>

definition or_else :: "string option \<Rightarrow> string \<Rightarrow> string" where
  "or_else x d = (case x of None \<Rightarrow> d | Some s \<Rightarrow> if s \<noteq> [] then s else d)"

text \<open>The value found by following a list of keys through nested dicts, if there is one.\<close>

fun lookup_path :: "string list \<Rightarrow> pyval \<Rightarrow> pyval option" where
  "lookup_path [] v = Some v"
| "lookup_path (k # ks) (PDict kvs) =
     (case map_of kvs k of None \<Rightarrow> None | Some v \<Rightarrow> lookup_path ks v)"
| "lookup_path (k # ks) _ = None"

definition DATA_PATH :: "string list" where
  "DATA_PATH = [''values'', ''A+'', ''total'', ''data'']"

text \<open>The three public fetch operations, for given arguments.\<close>

definition fetch_operations ::
  "env \<Rightarrow> scraper \<Rightarrow> string option \<Rightarrow> string option \<Rightarrow> string option
     \<Rightarrow> (world \<Rightarrow> (error + pyval list) \<times> world) set" where
  "fetch_operations E self year month day =
     {get_day_data E self year month day, get_month_data E self year month,
      get_year_data E self year}"

section \<open>An example host\<close>

text \<open>
  A host two hours east of UTC whose clock shows 1 March 2016, a second later at each
  reading, talking to a site that answers the GET with a login form and the POST with a
  page carrying one chart.
\<close>

definition example_payload :: pyval where
  "example_payload =
     PDict [(''values'', PDict [(''A+'', PDict [(''total'', PDict [(''data'', PList
       [PDict [(''timestamp'', PInt 1456790400000), (''value'', PFloat (Finite (25 / 2)))],
        PDict [(''timestamp'', PInt 1456794000999), (''value'', PStr ''n/a'')]])])])])]"

definition example_login_page :: "node list" where
  "example_login_page =
     [Element ''html'' []
        [Element ''form'' []
           [Element ''input'' [(''name'', ''_token''), (''value'', ''abc123'')] [],
            Element ''input'' [(''name'', ''login''), (''value'', ''scraped'')] []]]]"

definition example_data_page :: "node list" where
  "example_data_page =
     [Element ''html'' []
        [Element ''div'' [(''class'', ''graph chart''), (''data-values'', ''payload'')] []]]"

definition example_span_page :: "node list" where
  "example_span_page =
     [Element ''html'' []
        [Element ''div'' [(''class'', ''chart'')] [],
         Element ''span'' [(''class'', ''chart''), (''data-values'', ''payload'')] []]]"

definition example_env :: env where
  "example_env =
     \<lparr>clock = (\<lambda>k. \<lparr>dt_year = 2016, dt_month = 3, dt_day = 1, dt_hour = 12, dt_minute = 0,
                      dt_second = int k mod 60, dt_microsecond = 0\<rparr>),
      utcoffset = (\<lambda>t. 7200),
      localtime_error = (\<lambda>t. None),
      float_div = (\<lambda>n. of_int n / 1000),
      int_of_str = (\<lambda>s. None),
      server = (\<lambda>reqs. case last reqs of GET u \<Rightarrow> Inr ''login'' | POST u b \<Rightarrow> Inr ''data''),
      parse_html = (\<lambda>s. if s = ''login'' then Inr example_login_page
                         else if s = ''data'' then Inr example_data_page
                         else Inl (ParserError s)),
      json_loads = (\<lambda>s. if s = ''payload'' then Inr example_payload
                         else Inl (JSONDecodeError s)),
      json_dumps = (\<lambda>v. ''[...]'')\<rparr>"

text \<open>The same host, where the site answers the POST with a page whose payload sits on a span.\<close>

definition example_span_env :: env where
  "example_span_env =
     example_env\<lparr>parse_html := (\<lambda>s. if s = ''login'' then Inr example_login_page
                                      else Inr example_span_page)\<rparr>"

definition example_world :: world where
  "example_world = \<lparr>reads = 0, stdout = [], sent = [], files = []\<rparr>"

definition example_scraper :: scraper where
  "example_scraper = \<lparr>login = ''user'', password = ''secret'', meter_id = ''123/4''\<rparr>"

definition example_opts :: opts where
  "example_opts =
     \<lparr>opt_username = Some ''user'', opt_password = Some ''secret'', opt_meter = Some ''123/4'',
      opt_period = ''week'', opt_year = None, opt_month = None, opt_day = None,
      opt_outfile = None\<rparr>"

section \<open>Basic facts\<close>

lemma and_then_Inr [simp]: "and_then (Inr x) f = f x"
  by (simp add: and_then_def)

lemma and_then_Inl [simp]: "and_then (Inl e) f = Inl e"
  by (simp add: and_then_def)

lemma and_then_eq_Inr: "and_then m f = Inr y \<longleftrightarrow> (\<exists>x. m = Inr x \<and> f x = Inr y)"
  by (cases m) simp_all

section \<open>The normalizer keeps length, order and values\<close>

lemma format_items_all2:
  "list_all2 (\<lambda>e r. format_item E e = Inr r) xs rs \<Longrightarrow> format_items E xs = Inr rs"
  by (induction xs rs rule: list_all2_induct) simp_all

lemma format_items_Inr_all2:
  "format_items E xs = Inr rs \<Longrightarrow> list_all2 (\<lambda>e r. format_item E e = Inr r) xs rs"
  by (induction xs arbitrary: rs) (auto simp: and_then_eq_Inr)

lemma format_item_record:
  assumes "getitem e ''timestamp'' = Inr ts" and "format_timestamp E ts = Inr s"
    and "getitem e ''value'' = Inr v"
  shows "format_item E e = Inr (PDict [(''data'', PStr s), (''value'', v)])"
  using assms by (simp add: format_item_def)

section \<open>Calendar dates are in range\<close>

lemma nth_days_before:
  "DAYS_BEFORE_MONTH ! Suc 0 = 0" "DAYS_BEFORE_MONTH ! 2 = 31" "DAYS_BEFORE_MONTH ! 3 = 59"
  "DAYS_BEFORE_MONTH ! 4 = 90" "DAYS_BEFORE_MONTH ! 5 = 120" "DAYS_BEFORE_MONTH ! 6 = 151"
  "DAYS_BEFORE_MONTH ! 7 = 181" "DAYS_BEFORE_MONTH ! 8 = 212" "DAYS_BEFORE_MONTH ! 9 = 243"
  "DAYS_BEFORE_MONTH ! 10 = 273" "DAYS_BEFORE_MONTH ! 11 = 304" "DAYS_BEFORE_MONTH ! 12 = 334"
  by (simp_all add: DAYS_BEFORE_MONTH_def)

lemma nth_days_in:
  "DAYS_IN_MONTH ! Suc 0 = 31" "DAYS_IN_MONTH ! 2 = 28" "DAYS_IN_MONTH ! 3 = 31"
  "DAYS_IN_MONTH ! 4 = 30" "DAYS_IN_MONTH ! 5 = 31" "DAYS_IN_MONTH ! 6 = 30"
  "DAYS_IN_MONTH ! 7 = 31" "DAYS_IN_MONTH ! 8 = 31" "DAYS_IN_MONTH ! 9 = 30"
  "DAYS_IN_MONTH ! 10 = 31" "DAYS_IN_MONTH ! 11 = 30" "DAYS_IN_MONTH ! 12 = 31"
  by (simp_all add: DAYS_IN_MONTH_def)

text \<open>The month and day chosen from the day \<open>n\<close> of a year (0 to 364).\<close>

lemma month_day_bounds:
  fixes n month preceding :: int and leap :: bool
  assumes n: "0 \<le> n" "n \<le> 364"
    and month: "month = (n + 50) div 32"
    and preceding: "preceding = DAYS_BEFORE_MONTH ! nat month + (if month > 2 \<and> leap then 1 else 0)"
  shows "1 \<le> month \<and> month \<le> 12"
    and "preceding > n \<Longrightarrow> 2 \<le> month \<and>
           1 \<le> n - (preceding - (DAYS_IN_MONTH ! nat (month - 1) + (if month - 1 = 2 \<and> leap then 1 else 0))) + 1
           \<and> n - (preceding - (DAYS_IN_MONTH ! nat (month - 1) + (if month - 1 = 2 \<and> leap then 1 else 0))) + 1 \<le> 31"
    and "\<not> preceding > n \<Longrightarrow> 1 \<le> n - preceding + 1 \<and> n - preceding + 1 \<le> 31"
proof -
  have m: "1 \<le> month" "month \<le> 12"
    using n unfolding month by linarith+
  then show "1 \<le> month \<and> month \<le> 12" by simp
  from m have cases: "month = 1 \<or> month = 2 \<or> month = 3 \<or> month = 4 \<or> month = 5 \<or> month = 6
      \<or> month = 7 \<or> month = 8 \<or> month = 9 \<or> month = 10 \<or> month = 11 \<or> month = 12"
    by presburger
  have lo: "32 * month - 50 \<le> n" and hi: "n \<le> 32 * month - 19"
    unfolding month by linarith+
  show "preceding > n \<Longrightarrow> 2 \<le> month \<and>
           1 \<le> n - (preceding - (DAYS_IN_MONTH ! nat (month - 1) + (if month - 1 = 2 \<and> leap then 1 else 0))) + 1
           \<and> n - (preceding - (DAYS_IN_MONTH ! nat (month - 1) + (if month - 1 = 2 \<and> leap then 1 else 0))) + 1 \<le> 31"
    using cases lo hi n unfolding preceding
    by (elim disjE) (simp_all add: nth_days_before nth_days_in split: if_splits)
  show "\<not> preceding > n \<Longrightarrow> 1 \<le> n - preceding + 1 \<and> n - preceding + 1 \<le> 31"
    using cases lo hi n unfolding preceding
    by (elim disjE) (simp_all add: nth_days_before nth_days_in split: if_splits)
qed

lemma ord2ymd_bounds:
  assumes "ord2ymd ordinal = (y, m, d)"
  shows "1 \<le> m \<and> m \<le> 12 \<and> 1 \<le> d \<and> d \<le> 31"
proof -
  define n where "n = (ordinal - 1) mod 146097 mod 36524 mod 1461 mod 365"
  define n1 where "n1 = (ordinal - 1) mod 146097 mod 36524 mod 1461 div 365"
  define n4 where "n4 = (ordinal - 1) mod 146097 mod 36524 div 1461"
  define n100 where "n100 = (ordinal - 1) mod 146097 div 36524"
  define year where "year = (ordinal - 1) div 146097 * 400 + 1 + n100 * 100 + n4 * 4 + n1"
  define leap where "leap \<longleftrightarrow> n1 = 3 \<and> (n4 \<noteq> 24 \<or> n100 = 3)"
  define month where "month = (n + 50) div 32"
  define preceding where
    "preceding = DAYS_BEFORE_MONTH ! nat month + (if month > 2 \<and> leap then 1 else 0)"
  define day' where "day' = n - (preceding - (DAYS_IN_MONTH ! nat (month - 1)
                              + (if month - 1 = 2 \<and> leap then 1 else 0))) + 1"
  have eq: "ord2ymd ordinal =
      (if n1 = 4 \<or> n100 = 4 then (year - 1, 12, 31)
       else if preceding > n then (year, month - 1, day')
       else (year, month, n - preceding + 1))"
    unfolding ord2ymd_def Let_def n_def n1_def n4_def n100_def year_def leap_def month_def
      preceding_def day'_def
    by (rule refl)
  have n: "0 \<le> n" "n \<le> 364" by (simp_all add: n_def)
  note b = month_day_bounds[OF n month_def preceding_def]
  consider "n1 = 4 \<or> n100 = 4" | "\<not> (n1 = 4 \<or> n100 = 4)" "preceding > n"
    | "\<not> (n1 = 4 \<or> n100 = 4)" "\<not> preceding > n"
    by blast
  then show ?thesis
  proof cases
    case 1
    with eq assms show ?thesis by simp
  next
    case 2
    with eq assms have "m = month - 1" "d = day'" by simp_all
    with b(2)[OF 2(2)] b(1) show ?thesis unfolding day'_def by simp
  next
    case 3
    with eq assms have "m = month" "d = n - preceding + 1" by simp_all
    with b(3)[OF 3(2)] b(1) show ?thesis by simp
  qed
qed

section \<open>Decimal fields and rounding\<close>

lemma is_digit_digit_char: "d < 10 \<Longrightarrow> is_digit (digit_char d)"
  by (simp add: is_digit_def digit_char_def)

lemma dec_digits: "n < 10 ^ k \<Longrightarrow> 0 < k \<Longrightarrow> length (dec n) \<le> k \<and> list_all is_digit (dec n)"
proof (induction n arbitrary: k rule: dec.induct)
  case (1 n)
  show ?case
  proof (cases "n < 10")
    case True
    then show ?thesis using 1(3) by (simp add: dec.simps[of n] is_digit_digit_char Suc_leI)
  next
    case False
    then obtain k' where k: "k = Suc k'" "0 < k'" using 1(2,3)
      by (cases k; cases "k - 1") auto
    have "n div 10 < 10 ^ k'" using 1(2) k by (simp add: less_mult_imp_div_less)
    from 1(1)[OF False this k(2)] False show ?thesis
      by (simp add: dec.simps[of n] k is_digit_digit_char)
  qed
qed

lemma zpad_fits:
  assumes "0 \<le> n" and "n < 10 ^ k" and "0 < k"
  shows "fits (replicate k CHR ''d'') (zpad k n)"
proof -
  have "nat n < 10 ^ k" using assms(1,2) by (metis nat_less_iff of_nat_numeral of_nat_power)
  from dec_digits[OF this assms(3)] have l: "length (dec (nat n)) \<le> k"
    and d: "list_all is_digit (dec (nat n))" by simp_all
  have z: "is_digit CHR ''0''" by (simp add: is_digit_def)
  have gen: "list_all is_digit s \<Longrightarrow> fits (replicate (length s) CHR ''d'') s" for s
    by (induction s) simp_all
  have "list_all is_digit (zpad k n)" "length (zpad k n) = k"
    using l d z by (auto simp: zpad_def Let_def list_all_iff)
  with gen[of "zpad k n"] show ?thesis by simp
qed

lemma fits_append: "fits p s \<Longrightarrow> fits p' s' \<Longrightarrow> fits (p @ p') (s @ s')"
  by (induction p s rule: fits.induct) simp_all

lemma py_round_bounds:
  "of_int a \<le> q \<Longrightarrow> a \<le> py_round q" "q \<le> of_int b \<Longrightarrow> py_round q \<le> b"
proof -
  have "\<lfloor>q\<rfloor> \<le> py_round q"
    by (simp add: py_round_def Let_def)
  moreover have "of_int a \<le> q \<Longrightarrow> a \<le> \<lfloor>q\<rfloor>"
    by (simp add: le_floor_iff)
  ultimately show "of_int a \<le> q \<Longrightarrow> a \<le> py_round q"
    by linarith
  show "q \<le> of_int b \<Longrightarrow> py_round q \<le> b"
  proof -
    assume b: "q \<le> of_int b"
    then have f: "\<lfloor>q\<rfloor> \<le> b" by (simp add: floor_le_iff)
    have "\<lfloor>q\<rfloor> + 1 \<le> b" if "q - of_int \<lfloor>q\<rfloor> > 0"
    proof -
      from that have "of_int \<lfloor>q\<rfloor> < q" by simp
      with b have "of_int \<lfloor>q\<rfloor> < (of_int b :: rat)" by linarith
      then show ?thesis by simp
    qed
    with f show ?thesis
      by (auto simp: py_round_def Let_def)
  qed
qed

lemma fromtimestamp_whole_second:
  assumes exact: "1000 dvd n \<longrightarrow> float_div E n = of_int n / 1000"
    and near: "\<bar>float_div E n - of_int n / 1000\<bar> \<le> 1 / 2000"
  shows "\<exists>us. fromtimestamp E (float_div E n) = datetime_from_timet_and_us E (n div 1000) us"
proof -
  define q where "q = float_div E n"
  define k where "k = n div 1000"
  define r where "r = n mod 1000"
  have n: "n = 1000 * k + r" and r: "0 \<le> r" "r < 1000"
    by (simp_all add: k_def r_def)
  have nq: "(of_int n :: rat) / 1000 = of_int k + of_int r / 1000"
    by (simp add: n)
  show ?thesis
  proof (cases "r = 0")
    case True
    then have "1000 dvd n" by (simp add: r_def dvd_eq_mod_eq_0)
    with exact nq True have "q = of_int k" by (simp add: q_def)
    then have "fromtimestamp E q = datetime_from_timet_and_us E k 0"
      by (simp add: fromtimestamp_def modf_def py_round_def)
    then show ?thesis unfolding q_def k_def by blast
  next
    case False
    with r have "1 \<le> r" "r \<le> 999" by simp_all
    then have rr: "(1::rat) / 1000 \<le> of_int r / 1000" "of_int r / 1000 \<le> (999::rat) / 1000"
      by simp_all
    from near nq have lo: "of_int k + 1 / 2000 \<le> q" and hi: "q \<le> of_int k + 1999 / 2000"
      using rr unfolding q_def by linarith+
    have fl: "\<lfloor>q\<rfloor> = k" using lo hi by (simp add: floor_unique)
    have ce: "\<lceil>q\<rceil> = k + 1" using lo hi by (simp add: ceiling_unique)
    show ?thesis
    proof (cases "q < 0")
      case True
      define us where "us = py_round ((q - of_int (k + 1)) * 1000000)"
      have "of_int (- 999500) \<le> (q - of_int (k + 1)) * 1000000"
        "(q - of_int (k + 1)) * 1000000 \<le> of_int (- 500)"
        using lo hi by simp_all
      then have "- 999500 \<le> us" "us \<le> - 500"
        unfolding us_def by (simp_all only: py_round_bounds)
      moreover have "modf q = (q - of_int (k + 1), k + 1)"
        using True ce by (simp add: modf_def)
      then have "fromtimestamp E q =
          (case (if us \<ge> 1000000 then (k + 1 + 1, us - 1000000)
                 else if us < 0 then (k + 1 - 1, us + 1000000) else (k + 1, us))
           of (t, us) \<Rightarrow> datetime_from_timet_and_us E t us)"
        unfolding fromtimestamp_def us_def by (simp only: Let_def prod.case)
      ultimately have "fromtimestamp E q = datetime_from_timet_and_us E k (us + 1000000)"
        by simp
      then show ?thesis unfolding q_def k_def by blast
    next
      case False
      define us where "us = py_round ((q - of_int k) * 1000000)"
      have "of_int 500 \<le> (q - of_int k) * 1000000"
        "(q - of_int k) * 1000000 \<le> of_int 999500"
        using lo hi by simp_all
      then have "500 \<le> us" "us \<le> 999500"
        unfolding us_def by (simp_all only: py_round_bounds)
      moreover have "modf q = (q - of_int k, k)"
        using False fl by (simp add: modf_def)
      then have "fromtimestamp E q =
          (case (if us \<ge> 1000000 then (k + 1, us - 1000000)
                 else if us < 0 then (k - 1, us + 1000000) else (k, us))
           of (t, us) \<Rightarrow> datetime_from_timet_and_us E t us)"
        unfolding fromtimestamp_def us_def by (simp only: Let_def prod.case)
      ultimately have "fromtimestamp E q = datetime_from_timet_and_us E k us"
        by simp
      then show ?thesis unfolding q_def k_def by blast
    qed
  qed
qed


section \<open>Timestamps are formatted by their whole second\<close>

lemma strftime_stamp:
  "strftime ''%Y-%m-%d %H:%M:%S'' dt =
     dec (nat (dt_year dt)) @ ''-'' @ zpad 2 (dt_month dt) @ ''-'' @ zpad 2 (dt_day dt) @ '' ''
     @ zpad 2 (dt_hour dt) @ '':'' @ zpad 2 (dt_minute dt) @ '':'' @ zpad 2 (dt_second dt)"
  by (simp add: directive_def)

lemma datetime_from_timet_and_us_microsecond:
  "datetime_from_timet_and_us E t us =
     and_then (datetime_from_timet_and_us E t 0) (\<lambda>dt. Inr (dt\<lparr>dt_microsecond := us\<rparr>))"
  by (auto simp: datetime_from_timet_and_us_def Let_def and_then_def split: sum.splits prod.splits)

lemma stamp_ignores_microseconds:
  "and_then (datetime_from_timet_and_us E t us) (\<lambda>dt. Inr (strftime ''%Y-%m-%d %H:%M:%S'' dt))
   = and_then (datetime_from_timet_and_us E t 0) (\<lambda>dt. Inr (strftime ''%Y-%m-%d %H:%M:%S'' dt))"
proof -
  have "strftime ''%Y-%m-%d %H:%M:%S'' (dt\<lparr>dt_microsecond := us\<rparr>)
      = strftime ''%Y-%m-%d %H:%M:%S'' dt" for dt
    unfolding strftime_stamp by simp
  then show ?thesis
    by (subst datetime_from_timet_and_us_microsecond)
      (cases "datetime_from_timet_and_us E t 0"; simp)
qed

lemma format_timestamp_int:
  assumes "py_int E timestamp = Inr n"
    and "1000 dvd n \<longrightarrow> float_div E n = of_int n / 1000"
    and "\<bar>float_div E n - of_int n / 1000\<bar> \<le> 1 / 2000"
  shows "format_timestamp E timestamp =
           and_then (datetime_from_timet_and_us E (n div 1000) 0)
             (\<lambda>dt. Inr (strftime ''%Y-%m-%d %H:%M:%S'' dt))"
proof -
  from fromtimestamp_whole_second[OF assms(2,3)] obtain us where
    "fromtimestamp E (float_div E n) = datetime_from_timet_and_us E (n div 1000) us"
    by blast
  then have "format_timestamp E timestamp =
           and_then (datetime_from_timet_and_us E (n div 1000) us)
             (\<lambda>dt. Inr (strftime ''%Y-%m-%d %H:%M:%S'' dt))"
    using assms(1) by (simp add: format_timestamp_def)
  also note stamp_ignores_microseconds
  finally show ?thesis .
qed

lemma localtime_bounds:
  assumes "localtime E t = Inr (y, m, d, hh, mm, ss)"
  shows "1 \<le> m \<and> m \<le> 12" "1 \<le> d \<and> d \<le> 31" "0 \<le> hh \<and> hh \<le> 23"
    "0 \<le> mm \<and> mm \<le> 59" "0 \<le> ss \<and> ss \<le> 59" "y = local_year E t"
proof -
  obtain y' m' d' where o: "ord2ymd ((t + utcoffset E t) div 86400 + 719163) = (y', m', d')"
    by (cases "ord2ymd ((t + utcoffset E t) div 86400 + 719163)") auto
  with assms have eq: "y = y'" "m = m'" "d = d'" "hh = (t + utcoffset E t) mod 86400 div 3600"
    "mm = (t + utcoffset E t) mod 86400 mod 3600 div 60" "ss = (t + utcoffset E t) mod 86400 mod 60"
    by (simp_all add: localtime_def Let_def split: option.splits)
  from ord2ymd_bounds[OF o] eq show "1 \<le> m \<and> m \<le> 12" "1 \<le> d \<and> d \<le> 31" by simp_all
  from o eq show "y = local_year E t" by (simp add: local_year_def)
  define sod where "sod = (t + utcoffset E t) mod 86400"
  define soh where "soh = sod mod 3600"
  have sod: "0 \<le> sod" "sod < 86400" by (simp_all add: sod_def)
  have soh: "0 \<le> soh" "soh < 3600" by (simp_all add: soh_def)
  have h: "hh = sod div 3600" and mi: "mm = soh div 60" and se: "ss = sod mod 60"
    using eq by (simp_all add: sod_def soh_def)
  from sod show "0 \<le> hh \<and> hh \<le> 23" unfolding h by linarith
  from soh show "0 \<le> mm \<and> mm \<le> 59" unfolding mi by linarith
  show "0 \<le> ss \<and> ss \<le> 59" unfolding se by simp
qed

lemma dec_four_digits:
  assumes "1000 \<le> n" and "n < 10000"
  shows "fits ''dddd'' (dec n)"
proof -
  have d: "is_digit (digit_char (k mod 10))" for k
    by (simp add: is_digit_digit_char)
  have "n div 1000 < 10" using assms(2) by simp
  moreover have "\<not> n < 10" "\<not> n div 10 < 10" "\<not> n div 100 < 10"
    using assms(1) by simp_all
  ultimately have "dec n = [digit_char (n div 1000), digit_char (n div 100 mod 10),
      digit_char (n div 10 mod 10), digit_char (n mod 10)]"
    by (simp add: dec.simps[of n] dec.simps[of "n div 10"] dec.simps[of "n div 100"]
        dec.simps[of "n div 1000"] div_mult2_eq[symmetric])
  moreover have "is_digit (digit_char (n div 1000))"
    using \<open>n div 1000 < 10\<close> by (rule is_digit_digit_char)
  ultimately show ?thesis using d by simp
qed

text \<open>What a successful conversion of a whole second looks like when formatted.\<close>

lemma stamp_fits:
  assumes "datetime_from_timet_and_us E t us = Inr dt"
  shows "1 \<le> local_year E t \<and> local_year E t \<le> 9999"
    and "\<exists>rest. strftime ''%Y-%m-%d %H:%M:%S'' dt = dec (nat (local_year E t)) @ rest
           \<and> fits ''-dd-dd dd:dd:dd'' rest"
    and "1000 \<le> local_year E t \<Longrightarrow>
           fits ''dddd-dd-dd dd:dd:dd'' (strftime ''%Y-%m-%d %H:%M:%S'' dt)"
proof -
  from assms obtain y m d hh mm ss where l: "localtime E t = Inr (y, m, d, hh, mm, ss)"
    and u: "y \<ge> 1" "y \<le> 9999"
    and dt: "dt = \<lparr>dt_year = y, dt_month = m, dt_day = d, dt_hour = hh,
                    dt_minute = mm, dt_second = min 59 ss, dt_microsecond = us\<rparr>"
    by (auto simp: datetime_from_timet_and_us_def utc_to_seconds_def Let_def and_then_eq_Inr
        split: if_splits)
  note b = localtime_bounds[OF l]
  from u b(6) show y: "1 \<le> local_year E t \<and> local_year E t \<le> 9999" by simp
  have M: "fits (replicate 2 CHR ''d'') (zpad 2 m)" using b(1) by (intro zpad_fits) simp_all
  have D: "fits (replicate 2 CHR ''d'') (zpad 2 d)" using b(2) by (intro zpad_fits) simp_all
  have H: "fits (replicate 2 CHR ''d'') (zpad 2 hh)" using b(3) by (intro zpad_fits) simp_all
  have Mi: "fits (replicate 2 CHR ''d'') (zpad 2 mm)" using b(4) by (intro zpad_fits) simp_all
  have S: "fits (replicate 2 CHR ''d'') (zpad 2 (min 59 ss))" using b(5) by (intro zpad_fits) simp_all
  have lit: "fits ''-'' ''-''" "fits '' '' '' ''" "fits '':'' '':''" by simp_all
  define rest where "rest = ''-'' @ zpad 2 m @ ''-'' @ zpad 2 d @ '' ''
     @ zpad 2 hh @ '':'' @ zpad 2 mm @ '':'' @ zpad 2 (min 59 ss)"
  have "fits (''-'' @ replicate 2 CHR ''d'' @ ''-'' @ replicate 2 CHR ''d''
      @ '' '' @ replicate 2 CHR ''d'' @ '':'' @ replicate 2 CHR ''d'' @ '':'' @ replicate 2 CHR ''d'')
      rest"
    unfolding rest_def by (intro fits_append M D H Mi S lit)
  then have r: "fits ''-dd-dd dd:dd:dd'' rest" by (simp add: numeral_eq_Suc)
  have s: "strftime ''%Y-%m-%d %H:%M:%S'' dt = dec (nat (local_year E t)) @ rest"
    unfolding strftime_stamp rest_def dt b(6)[symmetric] by simp
  from s r show "\<exists>rest. strftime ''%Y-%m-%d %H:%M:%S'' dt = dec (nat (local_year E t)) @ rest
           \<and> fits ''-dd-dd dd:dd:dd'' rest" by blast
  show "fits ''dddd-dd-dd dd:dd:dd'' (strftime ''%Y-%m-%d %H:%M:%S'' dt)"
    if "1000 \<le> local_year E t"
  proof -
    from that y have "fits ''dddd'' (dec (nat (local_year E t)))"
      by (intro dec_four_digits) simp_all
    from fits_append[OF this r] show ?thesis unfolding s by simp
  qed
qed

section \<open>The example host at work\<close>

lemma example_float_div:
  "(1000 dvd n \<longrightarrow> float_div example_env n = of_int n / 1000)"
  "\<bar>float_div example_env n - of_int n / 1000\<bar> \<le> 1 / 2000"
  by (simp_all add: example_env_def)

lemma example_second_0:
  "and_then (datetime_from_timet_and_us example_env 1456790400 0)
     (\<lambda>dt. Inr (strftime ''%Y-%m-%d %H:%M:%S'' dt)) = Inr ''2016-03-01 02:00:00''"
  by code_simp

lemma example_second_1:
  "and_then (datetime_from_timet_and_us example_env 1456794000 0)
     (\<lambda>dt. Inr (strftime ''%Y-%m-%d %H:%M:%S'' dt)) = Inr ''2016-03-01 03:00:00''"
  by code_simp

lemma example_stamp_0:
  "format_timestamp example_env (PInt 1456790400000) = Inr ''2016-03-01 02:00:00''"
proof -
  have "py_int example_env (PInt 1456790400000) = Inr 1456790400000" by simp
  from format_timestamp_int[OF this example_float_div]
  have "format_timestamp example_env (PInt 1456790400000) =
      and_then (datetime_from_timet_and_us example_env 1456790400 0)
        (\<lambda>dt. Inr (strftime ''%Y-%m-%d %H:%M:%S'' dt))"
    by simp
  also note example_second_0
  finally show ?thesis .
qed

lemma example_stamp_1:
  "format_timestamp example_env (PInt 1456794000999) = Inr ''2016-03-01 03:00:00''"
proof -
  have "py_int example_env (PInt 1456794000999) = Inr 1456794000999" by simp
  from format_timestamp_int[OF this example_float_div]
  have "format_timestamp example_env (PInt 1456794000999) =
      and_then (datetime_from_timet_and_us example_env 1456794000 0)
        (\<lambda>dt. Inr (strftime ''%Y-%m-%d %H:%M:%S'' dt))"
    by simp
  also note example_second_1
  finally show ?thesis .
qed

section \<open>Properties of the response normalizer\<close>

text \<open>
  Claim C1. When the path \<^verbatim>\<open>values\<close>, \<^verbatim>\<open>A+\<close>, \<^verbatim>\<open>total\<close>, \<^verbatim>\<open>data\<close> of the payload
  leads to a list of \<open>N\<close> entries, each with a \<^verbatim>\<open>timestamp\<close> that can be formatted and
  a \<^verbatim>\<open>value\<close>, the normalizer returns exactly \<open>N\<close> records; the \<open>i\<close>-th record holds
  the formatted timestamp of the \<open>i\<close>-th entry under \<^verbatim>\<open>data\<close> and its value, unchanged,
  under \<^verbatim>\<open>value\<close>.
\<close>

theorem format_response_records:
  assumes "getitem payload ''values'' = Inr a" and "getitem a ''A+'' = Inr b"
    and "getitem b ''total'' = Inr c" and "getitem c ''data'' = Inr (PList entries)"
    and "\<forall>i < length entries.
           getitem (entries ! i) ''timestamp'' = Inr (ts i)
           \<and> format_timestamp E (ts i) = Inr (s i)
           \<and> getitem (entries ! i) ''value'' = Inr (v i)"
  shows "\<exists>out. format_response E payload = Inr out \<and> length out = length entries
           \<and> (\<forall>i < length entries. out ! i = PDict [(''data'', PStr (s i)), (''value'', v i)])"
proof -
  define out where "out = map (\<lambda>i. PDict [(''data'', PStr (s i)), (''value'', v i)]) [0 ..< length entries]"
  have "list_all2 (\<lambda>e r. format_item E e = Inr r) entries out"
    unfolding out_def using assms(5)
    by (intro list_all2_all_nthI) (simp_all add: format_item_record)
  then have "format_items E entries = Inr out"
    by (rule format_items_all2)
  then have "format_response E payload = Inr out"
    using assms(1-4) by (simp add: format_response_def)
  moreover have "length out = length entries"
    by (simp add: out_def)
  moreover have "\<forall>i < length entries. out ! i = PDict [(''data'', PStr (s i)), (''value'', v i)]"
    by (simp add: out_def)
  ultimately show ?thesis by blast
qed

theorem format_response_records_witness:
  "\<exists>out. format_response example_env example_payload = Inr out \<and> length out = 2
     \<and> out ! 0 = PDict [(''data'', PStr ''2016-03-01 02:00:00''), (''value'', PFloat (Finite (25 / 2)))]
     \<and> out ! 1 = PDict [(''data'', PStr ''2016-03-01 03:00:00''), (''value'', PStr ''n/a'')]"
proof -
  define entries where "entries =
       [PDict [(''timestamp'', PInt 1456790400000), (''value'', PFloat (Finite (25 / 2)))],
        PDict [(''timestamp'', PInt 1456794000999), (''value'', PStr ''n/a'')]]"
  define ts where "ts = (\<lambda>i::nat. if i = 0 then PInt 1456790400000 else PInt 1456794000999)"
  define s where "s = (\<lambda>i::nat. if i = 0 then ''2016-03-01 02:00:00'' else ''2016-03-01 03:00:00'')"
  define v where "v = (\<lambda>i::nat. if i = 0 then PFloat (Finite (25 / 2)) else PStr ''n/a'')"
  have 1: "getitem example_payload ''values'' = Inr (PDict [(''A+'', PDict [(''total'', PDict [(''data'', PList entries)])])])"
    by (simp add: example_payload_def entries_def)
  have 2: "getitem (PDict [(''A+'', PDict [(''total'', PDict [(''data'', PList entries)])])]) ''A+''
      = Inr (PDict [(''total'', PDict [(''data'', PList entries)])])"
    by simp
  have 3: "getitem (PDict [(''total'', PDict [(''data'', PList entries)])]) ''total''
      = Inr (PDict [(''data'', PList entries)])"
    by simp
  have 4: "getitem (PDict [(''data'', PList entries)]) ''data'' = Inr (PList entries)"
    by simp
  have 5: "\<forall>i < length entries.
           getitem (entries ! i) ''timestamp'' = Inr (ts i)
           \<and> format_timestamp example_env (ts i) = Inr (s i)
           \<and> getitem (entries ! i) ''value'' = Inr (v i)"
    by (simp add: entries_def ts_def s_def v_def less_Suc_eq example_stamp_0 example_stamp_1
        numeral_2_eq_2)
  from format_response_records[OF 1 2 3 4 5] show ?thesis
    by (auto simp: entries_def s_def v_def less_Suc_eq)
qed

section \<open>Values pass through unchecked\<close>

lemma format_item_entry:
  "format_item E (PDict [(''timestamp'', t), (''value'', v)]) =
     and_then (format_timestamp E t) (\<lambda>s. Inr (PDict [(''data'', PStr s), (''value'', v)]))"
  by (simp add: format_item_def)

lemma isl_and_then_Inr: "isl (and_then m (\<lambda>x. Inr (g x))) = isl m"
  by (cases m) simp_all

lemma format_items_value_blind:
  "isl (format_items E (map (\<lambda>(t, v). PDict [(''timestamp'', t), (''value'', f v)]) tvs))
   = isl (format_items E (map (\<lambda>(t, v). PDict [(''timestamp'', t), (''value'', v)]) tvs))"
proof (induction tvs)
  case Nil
  show ?case by simp
next
  case (Cons tv tvs)
  obtain t v where tv: "tv = (t, v)" by (cases tv)
  show ?case
  proof (cases "format_timestamp E t")
    case (Inl e)
    then show ?thesis by (simp add: tv format_item_entry)
  next
    case (Inr s)
    with Cons show ?thesis by (simp add: tv format_item_entry isl_and_then_Inr)
  qed
qed

lemma format_items_values:
  "format_items E (map (\<lambda>(t, v). PDict [(''timestamp'', t), (''value'', v)]) tvs) = Inr out
   \<Longrightarrow> map (\<lambda>r. getitem r ''value'') out = map (\<lambda>(t, v). Inr v) tvs"
proof (induction tvs arbitrary: out)
  case Nil
  then show ?case by simp
next
  case (Cons tv tvs)
  obtain t v where tv: "tv = (t, v)" by (cases tv)
  from Cons.prems obtain s rs where
    "format_timestamp E t = Inr s"
    and rs: "format_items E (map (\<lambda>(t, v). PDict [(''timestamp'', t), (''value'', v)]) tvs) = Inr rs"
    and out: "out = PDict [(''data'', PStr s), (''value'', v)] # rs"
    by (auto simp: tv format_item_entry and_then_eq_Inr)
  from Cons.IH[OF rs] show ?case by (simp add: out tv)
qed

lemma format_response_payload:
  "format_response E
     (PDict [(''values'', PDict [(''A+'', PDict [(''total'', PDict [(''data'', PList entries)])])])])
   = format_items E entries"
  by (simp add: format_response_def)

text \<open>
  Claim C10. Take a payload whose entries are built from arbitrary pairs of a timestamp
  and a value, the value being any JSON value. Whether the normalizer succeeds does not
  depend on the values (replacing every value \<open>v\<close> by \<open>f v\<close> changes nothing), and when
  it succeeds the \<^verbatim>\<open>value\<close> of each record is the entry's value itself.
\<close>

theorem value_copied_without_validation:
  "let entry = (\<lambda>(t, v). PDict [(''timestamp'', t), (''value'', v)]);
       payload = (\<lambda>tvs. PDict [(''values'', PDict [(''A+'', PDict [(''total'',
                    PDict [(''data'', PList (map entry tvs))])])])])
   in isl (format_response E (payload (map (\<lambda>(t, v). (t, f v)) tvs)))
        = isl (format_response E (payload tvs))
      \<and> (\<forall>out. format_response E (payload tvs) = Inr out
             \<longrightarrow> map (\<lambda>r. getitem r ''value'') out = map (\<lambda>(t, v). Inr v) tvs)"
proof -
  have m: "map (\<lambda>(t, v). PDict [(''timestamp'', t), (''value'', v)]) (map (\<lambda>(t, v). (t, f v)) tvs)
      = map (\<lambda>(t, v). PDict [(''timestamp'', t), (''value'', f v)]) tvs"
    by (simp add: case_prod_unfold)
  show ?thesis
    unfolding Let_def format_response_payload m
    using format_items_value_blind[of E f tvs] format_items_values[of E tvs]
    by blast
qed

theorem value_copied_without_validation_witness:
  "format_response example_env
     (PDict [(''values'', PDict [(''A+'', PDict [(''total'', PDict [(''data'', PList
        [PDict [(''timestamp'', PInt 1456790400000), (''value'', PStr ''n/a'')],
         PDict [(''timestamp'', PInt 1456790400000), (''value'', PNone)],
         PDict [(''timestamp'', PInt 1456790400000), (''value'', PBool True)],
         PDict [(''timestamp'', PInt 1456790400000), (''value'', PDict [(''k'', PInt 1)])],
         PDict [(''timestamp'', PInt 1456790400000), (''value'', PList [PInt 1])]])])])])])
   = Inr [PDict [(''data'', PStr ''2016-03-01 02:00:00''), (''value'', PStr ''n/a'')],
          PDict [(''data'', PStr ''2016-03-01 02:00:00''), (''value'', PNone)],
          PDict [(''data'', PStr ''2016-03-01 02:00:00''), (''value'', PBool True)],
          PDict [(''data'', PStr ''2016-03-01 02:00:00''), (''value'', PDict [(''k'', PInt 1)])],
          PDict [(''data'', PStr ''2016-03-01 02:00:00''), (''value'', PList [PInt 1])]]
   \<and> map (\<lambda>r. getitem r ''value'')
         [PDict [(''data'', PStr ''2016-03-01 02:00:00''), (''value'', PStr ''n/a'')],
          PDict [(''data'', PStr ''2016-03-01 02:00:00''), (''value'', PNone)],
          PDict [(''data'', PStr ''2016-03-01 02:00:00''), (''value'', PBool True)],
          PDict [(''data'', PStr ''2016-03-01 02:00:00''), (''value'', PDict [(''k'', PInt 1)])],
          PDict [(''data'', PStr ''2016-03-01 02:00:00''), (''value'', PList [PInt 1])]]
       = [Inr (PStr ''n/a''), Inr PNone, Inr (PBool True), Inr (PDict [(''k'', PInt 1)]),
          Inr (PList [PInt 1])]"
proof -
  define tvs where "tvs = [(PInt 1456790400000, PStr ''n/a''), (PInt 1456790400000, PNone),
     (PInt 1456790400000, PBool True), (PInt 1456790400000, PDict [(''k'', PInt 1)]),
     (PInt 1456790400000, PList [PInt 1])]"
  have r: "format_response example_env
     (PDict [(''values'', PDict [(''A+'', PDict [(''total'', PDict [(''data'', PList
        (map (\<lambda>(t, v). PDict [(''timestamp'', t), (''value'', v)]) tvs))])])])])
   = Inr [PDict [(''data'', PStr ''2016-03-01 02:00:00''), (''value'', PStr ''n/a'')],
          PDict [(''data'', PStr ''2016-03-01 02:00:00''), (''value'', PNone)],
          PDict [(''data'', PStr ''2016-03-01 02:00:00''), (''value'', PBool True)],
          PDict [(''data'', PStr ''2016-03-01 02:00:00''), (''value'', PDict [(''k'', PInt 1)])],
          PDict [(''data'', PStr ''2016-03-01 02:00:00''), (''value'', PList [PInt 1])]]"
    by (simp add: tvs_def format_response_payload format_item_entry example_stamp_0)
  from value_copied_without_validation[of example_env "\<lambda>v. PNone" tvs] r
  have "map (\<lambda>r. getitem r ''value'')
         [PDict [(''data'', PStr ''2016-03-01 02:00:00''), (''value'', PStr ''n/a'')],
          PDict [(''data'', PStr ''2016-03-01 02:00:00''), (''value'', PNone)],
          PDict [(''data'', PStr ''2016-03-01 02:00:00''), (''value'', PBool True)],
          PDict [(''data'', PStr ''2016-03-01 02:00:00''), (''value'', PDict [(''k'', PInt 1)])],
          PDict [(''data'', PStr ''2016-03-01 02:00:00''), (''value'', PList [PInt 1])]]
       = map (\<lambda>(t, v). Inr v) tvs"
    unfolding Let_def by blast
  with r show ?thesis by (simp add: tvs_def)
qed

section \<open>The shape of a formatted timestamp\<close>

text \<open>
  Claim C3 as stated fails: the first second of the local year 999 is formatted with a
  three-digit year.
\<close>

theorem early_year_not_padded:
  "format_timestamp example_env (PInt (- 30641767200000)) = Inr ''999-01-01 00:00:00''
   \<and> \<not> fits ''dddd-dd-dd dd:dd:dd'' ''999-01-01 00:00:00''"
proof -
  have "py_int example_env (PInt (- 30641767200000)) = Inr (- 30641767200000)" by simp
  from format_timestamp_int[OF this example_float_div]
  have "format_timestamp example_env (PInt (- 30641767200000)) =
      and_then (datetime_from_timet_and_us example_env (- 30641767200) 0)
        (\<lambda>dt. Inr (strftime ''%Y-%m-%d %H:%M:%S'' dt))"
    by simp
  also have "\<dots> = Inr ''999-01-01 00:00:00''"
    by code_simp
  finally have "format_timestamp example_env (PInt (- 30641767200000))
      = Inr ''999-01-01 00:00:00''" .
  moreover have "\<not> fits ''dddd-dd-dd dd:dd:dd'' ''999-01-01 00:00:00''"
    by (simp add: is_digit_def)
  ultimately show ?thesis by blast
qed

lemma first_day_refused:
  "and_then (datetime_from_timet_and_us example_env (- 62135604000) 0)
     (\<lambda>dt. Inr (strftime ''%Y-%m-%d %H:%M:%S'' dt)) = Inl ValueError"
  by code_simp

text \<open>
  Claim C3, as amended. Let \<open>n\<close> be the integer \<^verbatim>\<open>int(timestamp)\<close> and let the float
  \<^verbatim>\<open>n / 1000.0\<close> be exact where 1000 divides \<open>n\<close> and within half a millisecond of the
  quotient otherwise. Then the formatted timestamp is that of the whole second
  \<open>n div 1000\<close>. When there is one, it is the local year, written without padding,
  followed by \<^verbatim>\<open>-MM-DD HH:MM:SS\<close>; so it has the shape \<^verbatim>\<open>YYYY-MM-DD HH:MM:SS\<close> for the
  local years from 1000 on. Any timestamp of the same whole second is formatted to the
  same result.
\<close>

theorem format_timestamp_whole_second:
  assumes "py_int E timestamp = Inr n"
    and "1000 dvd n \<longrightarrow> float_div E n = of_int n / 1000"
    and "\<bar>float_div E n - of_int n / 1000\<bar> \<le> 1 / 2000"
  shows "format_timestamp E timestamp =
           and_then (datetime_from_timet_and_us E (n div 1000) 0)
             (\<lambda>dt. Inr (strftime ''%Y-%m-%d %H:%M:%S'' dt))
         \<and> (\<forall>s. format_timestamp E timestamp = Inr s \<longrightarrow>
               1 \<le> local_year E (n div 1000) \<and> local_year E (n div 1000) \<le> 9999
               \<and> (\<exists>rest. s = dec (nat (local_year E (n div 1000))) @ rest
                     \<and> fits ''-dd-dd dd:dd:dd'' rest)
               \<and> (1000 \<le> local_year E (n div 1000) \<longrightarrow> fits ''dddd-dd-dd dd:dd:dd'' s))
         \<and> (\<forall>timestamp' n'.
               py_int E timestamp' = Inr n'
               \<and> (1000 dvd n' \<longrightarrow> float_div E n' = of_int n' / 1000)
               \<and> \<bar>float_div E n' - of_int n' / 1000\<bar> \<le> 1 / 2000
               \<and> n' div 1000 = n div 1000
               \<longrightarrow> format_timestamp E timestamp' = format_timestamp E timestamp)"
proof -
  have eq: "format_timestamp E timestamp =
           and_then (datetime_from_timet_and_us E (n div 1000) 0)
             (\<lambda>dt. Inr (strftime ''%Y-%m-%d %H:%M:%S'' dt))"
    using assms by (rule format_timestamp_int)
  have shape: "1 \<le> local_year E (n div 1000) \<and> local_year E (n div 1000) \<le> 9999
               \<and> (\<exists>rest. s = dec (nat (local_year E (n div 1000))) @ rest
                     \<and> fits ''-dd-dd dd:dd:dd'' rest)
               \<and> (1000 \<le> local_year E (n div 1000) \<longrightarrow> fits ''dddd-dd-dd dd:dd:dd'' s)"
    if "format_timestamp E timestamp = Inr s" for s
  proof -
    from that eq obtain dt where d: "datetime_from_timet_and_us E (n div 1000) 0 = Inr dt"
      and s: "s = strftime ''%Y-%m-%d %H:%M:%S'' dt"
      by (auto simp: and_then_eq_Inr)
    from stamp_fits[OF d] show ?thesis unfolding s by blast
  qed
  have same: "format_timestamp E timestamp' = format_timestamp E timestamp"
    if "py_int E timestamp' = Inr n'
        \<and> (1000 dvd n' \<longrightarrow> float_div E n' = of_int n' / 1000)
        \<and> \<bar>float_div E n' - of_int n' / 1000\<bar> \<le> 1 / 2000
        \<and> n' div 1000 = n div 1000" for timestamp' n'
  proof -
    from that have "format_timestamp E timestamp' =
           and_then (datetime_from_timet_and_us E (n' div 1000) 0)
             (\<lambda>dt. Inr (strftime ''%Y-%m-%d %H:%M:%S'' dt))"
      by (intro format_timestamp_int) simp_all
    with that eq show ?thesis by simp
  qed
  from eq shape same show ?thesis by blast
qed

theorem format_timestamp_whole_second_witness:
  "format_timestamp example_env (PInt 1456790400000) = Inr ''2016-03-01 02:00:00''
   \<and> fits ''dddd-dd-dd dd:dd:dd'' ''2016-03-01 02:00:00''
   \<and> format_timestamp example_env (PInt 1456790400999)
       = format_timestamp example_env (PInt 1456790400000)"
proof -
  have 1: "py_int example_env (PInt 1456790400000) = Inr 1456790400000" by simp
  note t = format_timestamp_whole_second[OF 1 example_float_div]
  from t have "format_timestamp example_env (PInt 1456790400000) =
      and_then (datetime_from_timet_and_us example_env 1456790400 0)
        (\<lambda>dt. Inr (strftime ''%Y-%m-%d %H:%M:%S'' dt))"
    by simp
  also note example_second_0
  finally have s: "format_timestamp example_env (PInt 1456790400000) = Inr ''2016-03-01 02:00:00''" .
  have y: "1000 \<le> local_year example_env (1456790400000 div 1000)"
    by code_simp
  from t s y have f: "fits ''dddd-dd-dd dd:dd:dd'' ''2016-03-01 02:00:00''"
    by blast
  have "py_int example_env (PInt 1456790400999) = Inr 1456790400999
      \<and> (1000 dvd (1456790400999::int) \<longrightarrow>
           float_div example_env 1456790400999 = of_int 1456790400999 / 1000)
      \<and> \<bar>float_div example_env 1456790400999 - of_int 1456790400999 / 1000\<bar> \<le> 1 / 2000
      \<and> (1456790400999::int) div 1000 = 1456790400000 div 1000"
    by (simp add: example_env_def)
  with t have "format_timestamp example_env (PInt 1456790400999)
       = format_timestamp example_env (PInt 1456790400000)"
    by blast
  with s f show ?thesis by blast
qed

section \<open>The parameters of the data URL\<close>

lemma strftime_component:
  "strftime ''%Y'' dt = dec (nat (dt_year dt))"
  "strftime ''%m'' dt = zpad 2 (dt_month dt)"
  "strftime ''%d'' dt = zpad 2 (dt_day dt)"
  by (simp_all add: directive_def)

lemma py_or_now:
  "py_or x (format_now E F) w =
     (or_else x (strftime F (clock E (reads w))),
      w\<lparr>reads := reads w + (if truthy x then 0 else 1)\<rparr>)"
  by (cases x) (simp_all add: py_or_def or_else_def truthy_def format_now_def)

lemma periods_distinct:
  "PERIOD_YEAR \<noteq> PERIOD_MONTH" "PERIOD_YEAR \<noteq> PERIOD_DAY" "PERIOD_MONTH \<noteq> PERIOD_DAY"
  "PERIOD_MONTH \<noteq> PERIOD_YEAR" "PERIOD_DAY \<noteq> PERIOD_YEAR" "PERIOD_DAY \<noteq> PERIOD_MONTH"
  by (simp_all add: PERIOD_YEAR_def PERIOD_MONTH_def PERIOD_DAY_def)

lemma data_params_year:
  "data_params E self (Some PERIOD_YEAR) y m d g w =
     ([(''counterNumber'', Some (meter_id self)), (''period'', Some PERIOD_YEAR),
       (''year'', Some (or_else y (dec (nat (dt_year (clock E (reads w)))))))],
      w\<lparr>reads := reads w + (if truthy y then 0 else 1)\<rparr>)"
  by (simp add: data_params_def get_current_year_def py_or_now directive_def
      periods_distinct)

lemma data_params_month:
  "data_params E self (Some PERIOD_MONTH) y m d g w =
     ([(''counterNumber'', Some (meter_id self)), (''period'', Some PERIOD_MONTH),
       (''year'', Some (or_else y (dec (nat (dt_year (clock E (reads w))))))),
       (''month'', Some (or_else m (zpad 2 (dt_month
                      (clock E (reads w + (if truthy y then 0 else 1))))))),
       (''granularity'', g)],
      w\<lparr>reads := reads w + (if truthy y then 0 else 1) + (if truthy m then 0 else 1)\<rparr>)"
  by (simp add: data_params_def get_current_year_def get_current_month_def py_or_now
      directive_def periods_distinct)

lemma data_params_day:
  "data_params E self (Some PERIOD_DAY) y m d g w =
     ([(''counterNumber'', Some (meter_id self)), (''period'', Some PERIOD_DAY),
       (''date'', Some (
           or_else d (zpad 2 (dt_day (clock E
              (reads w + (if truthy y then 0 else 1) + (if truthy m then 0 else 1)))))
           @ ''.'' @ or_else m (zpad 2 (dt_month (clock E (reads w + (if truthy y then 0 else 1)))))
           @ ''.'' @ or_else y (dec (nat (dt_year (clock E (reads w))))))),
       (''granularity'', g)],
      w\<lparr>reads := reads w + (if truthy y then 0 else 1) + (if truthy m then 0 else 1)
                 + (if truthy d then 0 else 1)\<rparr>)"
  by (simp add: data_params_def get_current_year_def get_current_month_def
      get_current_day_def py_or_now directive_def periods_distinct)

lemma data_params_other:
  assumes "p \<noteq> Some PERIOD_YEAR" "p \<noteq> Some PERIOD_MONTH" "p \<noteq> Some PERIOD_DAY"
  shows "data_params E self p y m d g w =
     ([(''counterNumber'', Some (meter_id self)), (''period'', p)],
      w\<lparr>reads := reads w + (if truthy y then 0 else 1)\<rparr>)"
  using assms by (simp add: data_params_def get_current_year_def py_or_now)

section \<open>The requests of a fetch\<close>

lemma data_params_world:
  "\<exists>k \<le> 3. snd (data_params E self p y m d g w) = w\<lparr>reads := reads w + k\<rparr>"
proof -
  consider "p = Some PERIOD_YEAR" | "p = Some PERIOD_MONTH" | "p = Some PERIOD_DAY"
    | "p \<noteq> Some PERIOD_YEAR" "p \<noteq> Some PERIOD_MONTH" "p \<noteq> Some PERIOD_DAY"
    by blast
  then show ?thesis
  proof cases
    case 1
    show ?thesis unfolding 1 data_params_year snd_conv
      by (rule exI[of _ "if truthy y then 0 else 1"]) simp
  next
    case 2
    show ?thesis unfolding 2 data_params_month snd_conv
      by (rule exI[of _ "(if truthy y then 0 else 1) + (if truthy m then 0 else 1)"]) simp
  next
    case 3
    show ?thesis unfolding 3 data_params_day snd_conv
      by (rule exI[of _ "(if truthy y then 0 else 1) + (if truthy m then 0 else 1)
                          + (if truthy d then 0 else 1)"]) simp
  next
    case 4
    show ?thesis unfolding data_params_other[OF 4] snd_conv
      by (rule exI[of _ "if truthy y then 0 else 1"]) simp
  qed
qed

lemma get_data_url_world:
  assumes "get_data_url E self p y m d g w = (url, w1)"
  shows "stdout w1 = stdout w @ [url]" "sent w1 = sent w" "files w1 = files w"
    "reads w \<le> reads w1" "reads w1 \<le> reads w + 3"
proof -
  obtain k where k: "k \<le> 3" "snd (data_params E self p y m d g w) = w\<lparr>reads := reads w + k\<rparr>"
    using data_params_world by blast
  obtain ps where ps: "data_params E self p y m d g w = (ps, w\<lparr>reads := reads w + k\<rparr>)"
    using k(2) by (cases "data_params E self p y m d g w") simp
  from assms have w1: "w1 = w\<lparr>reads := reads w + k, stdout := stdout w @ [url]\<rparr>"
    by (auto simp: get_data_url_def ps Let_def)
  show "stdout w1 = stdout w @ [url]" "sent w1 = sent w" "files w1 = files w"
    "reads w \<le> reads w1" "reads w1 \<le> reads w + 3"
    using k(1) by (simp_all add: w1)
qed

lemma login_values_eq:
  "login_values self doc =
     [(''_token'', attr (select_input doc ''_token'') ''value''),
      (''returnUrl'', attr (select_input doc ''returnUrl'') ''value''),
      (''login'', Some (login self)),
      (''password'', Some (password self))]"
  by (simp add: login_values_def login_fields_def)

text \<open>The fetch, with the requests it has sent written out.\<close>

lemma fetch_remote_data_steps:
  assumes u: "get_data_url E self p y m d g w = (url, w1)"
  shows "fetch_remote_data E self p y m d g w =
     (case server E (sent w @ [GET url]) of
        Inl e \<Rightarrow> (Inl e, w1\<lparr>sent := sent w @ [GET url]\<rparr>)
      | Inr text \<Rightarrow>
         (case parse_html E text of
            Inl e \<Rightarrow> (Inl e, w1\<lparr>sent := sent w @ [GET url]\<rparr>)
          | Inr doc \<Rightarrow>
             (case server E (sent w @ [GET url, POST LOGIN_URL (login_values self doc)]) of
                Inl e \<Rightarrow> (Inl e, w1\<lparr>sent := sent w @ [GET url, POST LOGIN_URL (login_values self doc)]\<rparr>)
              | Inr text' \<Rightarrow>
                 (case parse_html E text' of
                    Inl e \<Rightarrow> (Inl e, w1\<lparr>sent := sent w @ [GET url, POST LOGIN_URL (login_values self doc)]\<rparr>)
                  | Inr page \<Rightarrow>
                     (loads E (attr (select_div_chart page) ''data-values''),
                      w1\<lparr>sent := sent w @ [GET url, POST LOGIN_URL (login_values self doc)]\<rparr>)))))"
  using get_data_url_world(2)[OF u]
  by (simp add: fetch_remote_data_def u Let_def split: sum.splits)

lemma fetch_remote_data_sent:
  assumes "get_data_url E self p y m d g w = (url, w1)"
    and "fetch_remote_data E self p y m d g w = (r, w')"
  shows "sent w' = sent w @ [GET url]
         \<or> (\<exists>html doc. server E (sent w @ [GET url]) = Inr html \<and> parse_html E html = Inr doc
               \<and> sent w' = sent w @ [GET url, POST LOGIN_URL (login_values self doc)])"
  using assms(2) unfolding fetch_remote_data_steps[OF assms(1)]
  by (auto split: sum.splits)

lemma fetch_remote_data_result:
  assumes "fetch_remote_data E self p y m d g w = (r, w')"
    and "server E (sent w') = Inr html" and "parse_html E html = Inr page"
  shows "r = loads E (attr (select_div_chart page) ''data-values'')"
proof -
  obtain url w1 where u: "get_data_url E self p y m d g w = (url, w1)"
    by (cases "get_data_url E self p y m d g w")
  show ?thesis
    using assms unfolding fetch_remote_data_steps[OF u]
    by (auto split: sum.splits)
qed

section \<open>The URL of a day request\<close>

lemma or_else_Some: "s \<noteq> [] \<Longrightarrow> or_else (Some s) d = s"
  by (simp add: or_else_def)

lemma or_else_None: "or_else None d = d"
  by (simp add: or_else_def)

lemma truthy_Some: "truthy (Some s) \<longleftrightarrow> s \<noteq> []"
  by (simp add: truthy_def)

lemma urlencode_day:
  "urlencode [(''counterNumber'', Some c), (''period'', Some ''D''), (''date'', Some dt),
              (''granularity'', Some ''H'')]
   = ''counterNumber='' @ quote_plus c @ ''&period=D&date='' @ quote_plus dt @ ''&granularity=H''"
  by (simp add: urlencode_def quote_plus_def quote_char_def is_unreserved_def py_str_def)

lemma fits_date:
  assumes "fits ''dd'' D" "fits ''dd'' M" "fits ''dddd'' Y"
  shows "fits ''dd.dd.dddd'' (D @ ''.'' @ M @ ''.'' @ Y)"
proof -
  have "fits (''dd'' @ ''.'' @ ''dd'' @ ''.'' @ ''dddd'') (D @ ''.'' @ M @ ''.'' @ Y)"
    by (intro fits_append assms) simp_all
  then show ?thesis by simp
qed

lemma get_day_data_sent:
  assumes "get_data_url E self (Some PERIOD_DAY) y m d (Some GRANULARITY_HOUR) w = (url, w1)"
  shows "sent (snd (get_day_data E self y m d w)) ! length (sent w) = GET url"
proof -
  obtain r w' where f: "fetch_remote_data E self (Some PERIOD_DAY) y m d (Some GRANULARITY_HOUR) w = (r, w')"
    by (cases "fetch_remote_data E self (Some PERIOD_DAY) y m d (Some GRANULARITY_HOUR) w")
  from fetch_remote_data_sent[OF assms f] have "sent w' ! length (sent w) = GET url"
    by (auto simp: nth_append)
  then show ?thesis by (simp add: get_day_data_def f)
qed

text \<open>
  Claim C5, as amended. For a day request with explicit, non-empty year \<open>Y\<close>, month \<open>M\<close>
  and day \<open>D\<close> the parameters are the meter, the period \<^verbatim>\<open>D\<close>, a \<^verbatim>\<open>date\<close> made of the
  three strings as supplied, joined by dots in the order day, month, year, and the
  granularity; there is no year, month or day parameter and the clock is not read. The
  URL carries them in this order, and it is the URL that \<^verbatim>\<open>get_day_data\<close> requests,
  with granularity \<^verbatim>\<open>H\<close>. The date has the zero-padded shape \<^verbatim>\<open>DD.MM.YYYY\<close> when the
  supplied day and month have two digits and the year four.
\<close>

theorem day_url_explicit:
  assumes "Y \<noteq> []" and "M \<noteq> []" and "D \<noteq> []"
  shows "let date = D @ ''.'' @ M @ ''.'' @ Y;
             url = DATA_URL @ ''?counterNumber='' @ quote_plus (meter_id self)
                   @ ''&period=D&date='' @ quote_plus date @ ''&granularity=H''
         in data_params E self (Some PERIOD_DAY) (Some Y) (Some M) (Some D)
              (Some GRANULARITY_HOUR) w
            = ([(''counterNumber'', Some (meter_id self)), (''period'', Some ''D''),
                (''date'', Some date), (''granularity'', Some ''H'')], w)
          \<and> fst (get_data_url E self (Some PERIOD_DAY) (Some Y) (Some M) (Some D)
                   (Some GRANULARITY_HOUR) w) = url
          \<and> sent (snd (get_day_data E self (Some Y) (Some M) (Some D) w)) ! length (sent w)
              = GET url
          \<and> (fits ''dd'' D \<and> fits ''dd'' M \<and> fits ''dddd'' Y \<longrightarrow> fits ''dd.dd.dddd'' date)"
proof -
  define date where "date = D @ ''.'' @ M @ ''.'' @ Y"
  define url where "url = DATA_URL @ ''?counterNumber='' @ quote_plus (meter_id self)
                   @ ''&period=D&date='' @ quote_plus date @ ''&granularity=H''"
  have p: "data_params E self (Some PERIOD_DAY) (Some Y) (Some M) (Some D)
              (Some GRANULARITY_HOUR) w
            = ([(''counterNumber'', Some (meter_id self)), (''period'', Some ''D''),
                (''date'', Some date), (''granularity'', Some ''H'')], w)"
    using assms unfolding data_params_day
    by (simp add: or_else_Some truthy_Some date_def PERIOD_DAY_def GRANULARITY_HOUR_def)
  then have u: "get_data_url E self (Some PERIOD_DAY) (Some Y) (Some M) (Some D)
                   (Some GRANULARITY_HOUR) w = (url, w\<lparr>stdout := stdout w @ [url]\<rparr>)"
    by (simp add: get_data_url_def urlencode_day url_def Let_def)
  from get_day_data_sent[OF u]
  have s: "sent (snd (get_day_data E self (Some Y) (Some M) (Some D) w)) ! length (sent w)
      = GET url" .
  have f: "fits ''dd'' D \<and> fits ''dd'' M \<and> fits ''dddd'' Y \<longrightarrow> fits ''dd.dd.dddd'' date"
    unfolding date_def using fits_date by blast
  from p u s f show ?thesis
    unfolding Let_def date_def[symmetric] url_def[symmetric] by simp
qed

theorem day_url_explicit_witness:
  "data_params example_env example_scraper (Some PERIOD_DAY) (Some ''2016'') (Some ''03'')
     (Some ''01'') (Some GRANULARITY_HOUR) example_world
   = ([(''counterNumber'', Some ''123/4''), (''period'', Some ''D''),
       (''date'', Some ''01.03.2016''), (''granularity'', Some ''H'')], example_world)
   \<and> fst (get_data_url example_env example_scraper (Some PERIOD_DAY) (Some ''2016'')
            (Some ''03'') (Some ''01'') (Some GRANULARITY_HOUR) example_world)
       = ''https://www.e-st.lv/lv/private/paterini-un-norekini/paterinu-grafiki/?counterNumber=123%2F4&period=D&date=01.03.2016&granularity=H''
   \<and> fits ''dd.dd.dddd'' ''01.03.2016''"
proof -
  have h: "''2016'' \<noteq> []" "''03'' \<noteq> []" "''01'' \<noteq> []" by simp_all
  have q: "quote_plus ''01.03.2016'' = ''01.03.2016''" "quote_plus ''123/4'' = ''123%2F4''"
    by (simp_all add: quote_plus_def quote_char_def is_unreserved_def percent_def)
  have d: "fits ''dd'' ''01''" "fits ''dd'' ''03''" "fits ''dddd'' ''2016''"
    by (simp_all add: is_digit_def)
  from day_url_explicit[OF h, where E = example_env and self = example_scraper
      and w = example_world] d
  show ?thesis
    unfolding Let_def by (simp add: q example_scraper_def DATA_URL_def BASE_HOST_def)
qed

text \<open>
  Claim C5 as stated fails: day \<^verbatim>\<open>1\<close> of month \<^verbatim>\<open>3\<close> gives the date \<^verbatim>\<open>1.3.2016\<close>,
  which is not zero-padded.
\<close>

theorem day_url_not_padded:
  "map_of (fst (data_params example_env example_scraper (Some PERIOD_DAY) (Some ''2016'')
                  (Some ''3'') (Some ''1'') (Some GRANULARITY_HOUR) example_world)) ''date''
     = Some (Some ''1.3.2016'')
   \<and> fst (get_data_url example_env example_scraper (Some PERIOD_DAY) (Some ''2016'')
            (Some ''3'') (Some ''1'') (Some GRANULARITY_HOUR) example_world)
       = ''https://www.e-st.lv/lv/private/paterini-un-norekini/paterinu-grafiki/?counterNumber=123%2F4&period=D&date=1.3.2016&granularity=H''
   \<and> \<not> fits ''dd.dd.dddd'' ''1.3.2016''"
  by code_simp

section \<open>Defaults from the clock, and what building a URL does\<close>

lemma get_data_url_params:
  "fst (get_data_url E self p y m d g w)
   = DATA_URL @ ''?'' @ urlencode (fst (data_params E self p y m d g w))"
  by (simp add: get_data_url_def Let_def case_prod_unfold)

text \<open>
  Claim C6. The clock is read once for each omitted component, in the order year,
  month, day, and the component used in the URL is the one of the date shown at that
  reading: the year for every period, the two-digit month for the periods month and
  day, the two-digit day for the period day. A component is omitted when it is
  \<^verbatim>\<open>None\<close> (or empty); one that is supplied is used as it is and costs no reading.
\<close>

theorem omitted_date_defaults:
  "let y1 = (if truthy year then 0 else 1);
       m1 = (if truthy month then 0 else 1);
       Y = or_else year (dec (nat (dt_year (clock E (reads w)))));
       M = or_else month (zpad 2 (dt_month (clock E (reads w + y1))));
       D = or_else day (zpad 2 (dt_day (clock E (reads w + y1 + m1))))
   in fst (get_data_url E self (Some PERIOD_YEAR) year month day g w) =
        DATA_URL @ ''?'' @ urlencode
          [(''counterNumber'', Some (meter_id self)), (''period'', Some ''Y''),
           (''year'', Some Y)]
      \<and> fst (get_data_url E self (Some PERIOD_MONTH) year month day g w) =
        DATA_URL @ ''?'' @ urlencode
          [(''counterNumber'', Some (meter_id self)), (''period'', Some ''M''),
           (''year'', Some Y), (''month'', Some M), (''granularity'', g)]
      \<and> fst (get_data_url E self (Some PERIOD_DAY) year month day g w) =
        DATA_URL @ ''?'' @ urlencode
          [(''counterNumber'', Some (meter_id self)), (''period'', Some ''D''),
           (''date'', Some (D @ ''.'' @ M @ ''.'' @ Y)), (''granularity'', g)]
      \<and> \<not> truthy None \<and> (\<forall>d. or_else None d = d)"
  unfolding Let_def get_data_url_params data_params_year data_params_month data_params_day
    fst_conv
  by (simp add: PERIOD_YEAR_def PERIOD_MONTH_def PERIOD_DAY_def or_else_None truthy_def)

theorem omitted_date_defaults_witness:
  "fst (get_data_url example_env example_scraper (Some PERIOD_YEAR) None None None None
          example_world)
     = ''https://www.e-st.lv/lv/private/paterini-un-norekini/paterinu-grafiki/?counterNumber=123%2F4&period=Y&year=2016''
   \<and> fst (get_data_url example_env example_scraper (Some PERIOD_MONTH) None None None
            (Some GRANULARITY_DAY) example_world)
     = ''https://www.e-st.lv/lv/private/paterini-un-norekini/paterinu-grafiki/?counterNumber=123%2F4&period=M&year=2016&month=03&granularity=D''
   \<and> fst (get_data_url example_env example_scraper (Some PERIOD_DAY) None None None
            (Some GRANULARITY_HOUR) example_world)
     = ''https://www.e-st.lv/lv/private/paterini-un-norekini/paterinu-grafiki/?counterNumber=123%2F4&period=D&date=01.03.2016&granularity=H''"
proof -
  have c: "dec (nat (dt_year (clock example_env k))) = ''2016''"
    "zpad 2 (dt_month (clock example_env k)) = ''03''"
    "zpad 2 (dt_day (clock example_env k)) = ''01''" for k
  proof -
    have "dec 2016 = ''2016''" "zpad 2 3 = ''03''" "zpad 2 1 = ''01''" by code_simp+
    then show "dec (nat (dt_year (clock example_env k))) = ''2016''"
      "zpad 2 (dt_month (clock example_env k)) = ''03''"
      "zpad 2 (dt_day (clock example_env k)) = ''01''"
      by (simp_all add: example_env_def)
  qed
  have u: "urlencode [(''counterNumber'', Some ''123/4''), (''period'', Some ''Y''),
                      (''year'', Some ''2016'')]
             = ''counterNumber=123%2F4&period=Y&year=2016''"
    "urlencode [(''counterNumber'', Some ''123/4''), (''period'', Some ''M''),
                (''year'', Some ''2016''), (''month'', Some ''03''),
                (''granularity'', Some ''D'')]
             = ''counterNumber=123%2F4&period=M&year=2016&month=03&granularity=D''"
    "urlencode [(''counterNumber'', Some ''123/4''), (''period'', Some ''D''),
                (''date'', Some ''01.03.2016''), (''granularity'', Some ''H'')]
             = ''counterNumber=123%2F4&period=D&date=01.03.2016&granularity=H''"
    by code_simp+
  note t = omitted_date_defaults[where E = example_env and self = example_scraper
      and year = None and month = None and day = None and w = example_world]
  from t[where g = None] t[where g = "Some GRANULARITY_DAY"] t[where g = "Some GRANULARITY_HOUR"]
  show ?thesis
    unfolding Let_def
    by (simp add: c or_else_None u example_scraper_def GRANULARITY_DAY_def GRANULARITY_HOUR_def
        DATA_URL_def BASE_HOST_def)
qed

text \<open>
  Claim C8 as stated fails: building a URL prints it, so standard output is not what it
  was before the call.
\<close>

theorem url_builder_prints:
  "stdout (snd (get_data_url example_env example_scraper (Some PERIOD_YEAR) (Some ''2016'')
                  None None None example_world))
   = [''https://www.e-st.lv/lv/private/paterini-un-norekini/paterinu-grafiki/?counterNumber=123%2F4&period=Y&year=2016'']
   \<and> stdout example_world = []"
  by code_simp

text \<open>
  Claim C8, as amended. The URL returned depends only on the arguments, the meter and
  the current date: two calls with the same arguments and meter, whose readings of the
  clock show the same dates (at whatever time of day), return the same URL. A call
  prints that URL as one line on standard output and reads the clock at most three
  times; it sends no request and writes no file.
\<close>

theorem url_builder_effects:
  assumes "\<forall>k<3. date_of (clock E' (reads w' + k)) = date_of (clock E (reads w + k))"
    and "meter_id self' = meter_id self"
  shows "fst (get_data_url E' self' p y m d g w') = fst (get_data_url E self p y m d g w)
         \<and> (let (url, w1) = get_data_url E self p y m d g w
            in stdout w1 = stdout w @ [url] \<and> sent w1 = sent w \<and> files w1 = files w
               \<and> reads w \<le> reads w1 \<and> reads w1 \<le> reads w + 3)"
proof -
  have c: "dt_year (clock E' (reads w' + k)) = dt_year (clock E (reads w + k))
      \<and> dt_month (clock E' (reads w' + k)) = dt_month (clock E (reads w + k))
      \<and> dt_day (clock E' (reads w' + k)) = dt_day (clock E (reads w + k))" if "k < 3" for k
    using assms(1) that by (simp add: date_of_def)
  have "fst (data_params E' self' p y m d g w') = fst (data_params E self p y m d g w)"
  proof -
    consider "p = Some PERIOD_YEAR" | "p = Some PERIOD_MONTH" | "p = Some PERIOD_DAY"
      | "p \<noteq> Some PERIOD_YEAR" "p \<noteq> Some PERIOD_MONTH" "p \<noteq> Some PERIOD_DAY"
      by blast
    then show ?thesis
    proof cases
      case 1
      show ?thesis unfolding 1 data_params_year fst_conv assms(2) using c[of 0] by simp
    next
      case 2
      show ?thesis unfolding 2 data_params_month fst_conv assms(2)
        using c[of 0] c[of "if truthy y then 0 else 1"] by simp
    next
      case 3
      show ?thesis unfolding 3 data_params_day fst_conv assms(2)
        using c[of 0] c[of "if truthy y then 0 else 1"]
          c[of "(if truthy y then 0 else 1) + (if truthy m then 0 else 1)"]
        by (simp add: add.assoc)
    next
      case 4
      show ?thesis unfolding data_params_other[OF 4] fst_conv assms(2) by simp
    qed
  qed
  then have "fst (get_data_url E' self' p y m d g w') = fst (get_data_url E self p y m d g w)"
    by (simp add: get_data_url_params)
  moreover obtain url w1 where u: "get_data_url E self p y m d g w = (url, w1)"
    by (cases "get_data_url E self p y m d g w")
  moreover note get_data_url_world[OF u]
  ultimately show ?thesis by simp
qed

theorem url_builder_effects_witness:
  "clock example_env 5 \<noteq> clock example_env 0
   \<and> fst (get_data_url example_span_env example_scraper (Some PERIOD_DAY) None None None
          (Some GRANULARITY_HOUR) (example_world\<lparr>reads := 5\<rparr>))
     = fst (get_data_url example_env example_scraper (Some PERIOD_DAY) None None None
            (Some GRANULARITY_HOUR) example_world)
   \<and> (let (url, w1) = get_data_url example_env example_scraper (Some PERIOD_DAY) None None
                         None (Some GRANULARITY_HOUR) example_world
      in stdout w1 = stdout example_world @ [url] \<and> sent w1 = sent example_world
         \<and> files w1 = files example_world)"
proof -
  have h: "\<forall>k<3. date_of (clock example_span_env (reads (example_world\<lparr>reads := 5\<rparr>) + k))
             = date_of (clock example_env (reads example_world + k))"
    by (simp add: example_span_env_def example_env_def date_of_def)
  have n: "clock example_env 5 \<noteq> clock example_env 0"
    by (simp add: example_env_def)
  from url_builder_effects[OF h refl, where p = "Some PERIOD_DAY" and y = None
      and m = None and d = None and g = "Some GRANULARITY_HOUR"] n
  show ?thesis by (simp add: case_prod_unfold Let_def)
qed

section \<open>The login request\<close>

text \<open>
  Claim C2. When the GET of a fetch returns a page that parses, the fetch sends exactly
  one more request: a POST to the login URL whose body has the four fields
  \<^verbatim>\<open>_token\<close>, \<^verbatim>\<open>returnUrl\<close>, \<^verbatim>\<open>login\<close>, \<^verbatim>\<open>password\<close>; the first two hold what the page
  carries for them (\<^verbatim>\<open>None\<close> without such an input), the last two hold the credentials
  of the scraper, whatever the page carries for them.
\<close>

theorem login_post_body:
  assumes "get_data_url E self p y m d g w = (url, w1)"
    and "server E (sent w @ [GET url]) = Inr html"
    and "parse_html E html = Inr doc"
  shows "sent (snd (fetch_remote_data E self p y m d g w)) =
           sent w @ [GET url,
                     POST LOGIN_URL
                       [(''_token'', attr (select_input doc ''_token'') ''value''),
                        (''returnUrl'', attr (select_input doc ''returnUrl'') ''value''),
                        (''login'', Some (login self)),
                        (''password'', Some (password self))]]"
  using assms(2,3)
  by (auto simp: fetch_remote_data_steps[OF assms(1)] login_values_eq split: sum.splits)

theorem login_post_body_witness:
  "sent (snd (fetch_remote_data example_env example_scraper (Some PERIOD_YEAR) (Some ''2016'')
                None None None example_world)) =
     [GET ''https://www.e-st.lv/lv/private/paterini-un-norekini/paterinu-grafiki/?counterNumber=123%2F4&period=Y&year=2016'',
      POST ''https://www.e-st.lv/lv/private/user-authentification/''
        [(''_token'', Some ''abc123''), (''returnUrl'', None), (''login'', Some ''user''),
         (''password'', Some ''secret'')]]"
proof -
  define url where "url = ''https://www.e-st.lv/lv/private/paterini-un-norekini/paterinu-grafiki/?counterNumber=123%2F4&period=Y&year=2016''"
  have 1: "get_data_url example_env example_scraper (Some PERIOD_YEAR) (Some ''2016'') None None
      None example_world = (url, example_world\<lparr>stdout := [url]\<rparr>)"
    unfolding url_def by code_simp
  have 2: "server example_env (sent example_world @ [GET url]) = Inr ''login''"
    by (simp add: example_env_def)
  have 3: "parse_html example_env ''login'' = Inr example_login_page"
    by (simp add: example_env_def)
  have 4: "attr (select_input example_login_page ''_token'') ''value'' = Some ''abc123''"
    "attr (select_input example_login_page ''returnUrl'') ''value'' = None"
    by code_simp+
  from login_post_body[OF 1 2 3] show ?thesis
    by (simp add: 4 url_def example_world_def example_scraper_def LOGIN_URL_def BASE_HOST_def)
qed

section \<open>Failing pages and unknown periods\<close>

lemma lookup_path_Cons:
  "lookup_path (k # ks) v = (case getitem v k of Inl e \<Rightarrow> None | Inr v' \<Rightarrow> lookup_path ks v')"
  by (cases v) (simp_all split: option.splits)

lemma format_response_needs_path:
  assumes "lookup_path DATA_PATH payload = None"
  shows "\<exists>e. format_response E payload = Inl e"
  using assms
  by (auto simp: DATA_PATH_def lookup_path_Cons format_response_def split: sum.splits)

lemma loads_None: "loads E None = Inl TypeError"
  by (simp add: loads_def)

lemma attr_Nil: "attr [] name = None"
  by (simp add: attr_def)

text \<open>Each fetch operation is a fetch followed by the normalizer.\<close>

lemma fetch_operations_result:
  assumes "operation \<in> fetch_operations E self year month day"
    and "operation w = (r, w')"
  obtains p y m d g r0 where "fetch_remote_data E self p y m d g w = (r0, w')"
    and "r = and_then r0 (format_response E)"
proof -
  from assms(1) consider "operation = get_day_data E self year month day"
    | "operation = get_month_data E self year month" | "operation = get_year_data E self year"
    by (auto simp: fetch_operations_def)
  then show thesis
  proof cases
    case 1
    with assms(2) that[of "Some PERIOD_DAY" year month day "Some GRANULARITY_HOUR"] show thesis
      by (auto simp: get_day_data_def split: prod.splits)
  next
    case 2
    with assms(2) that[of "Some PERIOD_MONTH" year month None "Some GRANULARITY_DAY"] show thesis
      by (auto simp: get_month_data_def split: prod.splits)
  next
    case 3
    with assms(2) that[of "Some PERIOD_YEAR" year None None None] show thesis
      by (auto simp: get_year_data_def split: prod.splits)
  qed
qed

lemma fetch_remote_data_two_requests:
  assumes "fetch_remote_data E self p y m d g w = (r, w')"
  shows "length (sent w') \<le> length (sent w) + 2"
proof -
  obtain url w1 where u: "get_data_url E self p y m d g w = (url, w1)"
    by (cases "get_data_url E self p y m d g w")
  from fetch_remote_data_sent[OF u assms] show ?thesis by auto
qed

text \<open>
  Claim C4. Take any of the three fetch operations and the page returned to the last
  request it sent (the post-login page, whenever the login request was sent). If that
  page has no \<^verbatim>\<open>div.chart\<close> element, or the element has no \<^verbatim>\<open>data-values\<close> attribute,
  or the attribute is not parseable as JSON, or the parsed value lacks the path
  \<^verbatim>\<open>values\<close>, \<^verbatim>\<open>A+\<close>, \<^verbatim>\<open>total\<close>, \<^verbatim>\<open>data\<close>, then the operation ends in an exception and
  returns no records; it has sent no request beyond the GET and the POST.
\<close>

theorem fetch_fails_without_payload:
  assumes "operation \<in> fetch_operations E self year month day"
    and "operation w = (r, w')"
    and "server E (sent w') = Inr html" and "parse_html E html = Inr page"
    and "select_div_chart page = []
         \<or> attr (select_div_chart page) ''data-values'' = None
         \<or> (\<exists>s. attr (select_div_chart page) ''data-values'' = Some s \<and> isl (json_loads E s))
         \<or> (\<exists>s payload. attr (select_div_chart page) ''data-values'' = Some s
               \<and> json_loads E s = Inr payload \<and> lookup_path DATA_PATH payload = None)"
  shows "(\<exists>e. r = Inl e) \<and> length (sent w') \<le> length (sent w) + 2"
proof -
  from assms(1,2) obtain p y m d g r0 where
    f: "fetch_remote_data E self p y m d g w = (r0, w')"
    and r: "r = and_then r0 (format_response E)"
    by (rule fetch_operations_result)
  from fetch_remote_data_result[OF f assms(3,4)]
  have r0: "r0 = loads E (attr (select_div_chart page) ''data-values'')" .
  from assms(5) consider
    "attr (select_div_chart page) ''data-values'' = None"
    | s where "attr (select_div_chart page) ''data-values'' = Some s" "isl (json_loads E s)"
    | s payload where "attr (select_div_chart page) ''data-values'' = Some s"
        "json_loads E s = Inr payload" "lookup_path DATA_PATH payload = None"
    by (auto simp: attr_Nil)
  then have "\<exists>e. r = Inl e"
  proof cases
    case 1
    then show ?thesis by (simp add: r r0 loads_None)
  next
    case 2
    then show ?thesis by (cases "json_loads E s") (simp_all add: r r0 loads_def)
  next
    case 3
    with format_response_needs_path[OF 3(3), of E] show ?thesis
      by (simp add: r r0 loads_def)
  qed
  with fetch_remote_data_two_requests[OF f] show ?thesis by simp
qed

lemma example_span_attr: "attr (select_div_chart example_span_page) ''data-values'' = None"
  by code_simp

lemma example_span_parse: "parse_html example_span_env ''data'' = Inr example_span_page"
  by (simp add: example_span_env_def)

theorem fetch_fails_without_payload_witness:
  "(\<exists>e. fst (get_day_data example_span_env example_scraper None None None example_world) = Inl e)
   \<and> length (sent (snd (get_day_data example_span_env example_scraper None None None
                          example_world))) \<le> 2"
proof -
  define r where "r = fst (get_day_data example_span_env example_scraper None None None example_world)"
  define w' where "w' = snd (get_day_data example_span_env example_scraper None None None example_world)"
  have 1: "get_day_data example_span_env example_scraper None None None
      \<in> fetch_operations example_span_env example_scraper None None None"
    by (simp add: fetch_operations_def)
  have 2: "get_day_data example_span_env example_scraper None None None example_world = (r, w')"
    by (simp add: r_def w'_def)
  have 3: "server example_span_env (sent w') = Inr ''data''"
    unfolding w'_def by code_simp
  have 5: "select_div_chart example_span_page = []
         \<or> attr (select_div_chart example_span_page) ''data-values'' = None
         \<or> (\<exists>s. attr (select_div_chart example_span_page) ''data-values'' = Some s
               \<and> isl (json_loads example_span_env s))
         \<or> (\<exists>s payload. attr (select_div_chart example_span_page) ''data-values'' = Some s
               \<and> json_loads example_span_env s = Inr payload
               \<and> lookup_path DATA_PATH payload = None)"
    by (simp add: example_span_attr)
  from fetch_fails_without_payload[OF 1 2 3 example_span_parse 5]
  show ?thesis by (simp add: r_def w'_def example_world_def)
qed

text \<open>
  Claim C9. Only \<^verbatim>\<open>div\<close> elements of class \<^verbatim>\<open>chart\<close> are looked at. If every element of
  the page that has the class \<^verbatim>\<open>chart\<close> and carries a \<^verbatim>\<open>data-values\<close> attribute is not
  a \<^verbatim>\<open>div\<close>, the attribute is not found, exactly as when nothing is selected, and the fetch
  operation ends in the same \<^verbatim>\<open>TypeError\<close>.
\<close>

theorem chart_must_be_div:
  assumes "operation \<in> fetch_operations E self year month day"
    and "operation w = (r, w')"
    and "server E (sent w') = Inr html" and "parse_html E html = Inr page"
    and "\<forall>n \<in> set (all_elements page).
           has_class n ''chart'' \<and> map_of (attrs n) ''data-values'' \<noteq> None \<longrightarrow> tag n \<noteq> ''div''"
  shows "attr (select_div_chart page) ''data-values'' = attr [] ''data-values''
         \<and> r = Inl TypeError"
proof -
  have a: "attr (select_div_chart page) ''data-values'' = None"
  proof (cases "select_div_chart page")
    case Nil
    then show ?thesis by (simp add: attr_Nil)
  next
    case (Cons n ns)
    then have "n \<in> set (select_div_chart page)" by simp
    then have "n \<in> set (all_elements page)" "tag n = ''div''" "has_class n ''chart''"
      by (simp_all add: select_div_chart_def)
    with assms(5) have "map_of (attrs n) ''data-values'' = None" by blast
    with Cons show ?thesis by (simp add: attr_def)
  qed
  from assms(1,2) obtain p y m d g r0 where
    f: "fetch_remote_data E self p y m d g w = (r0, w')"
    and r: "r = and_then r0 (format_response E)"
    by (rule fetch_operations_result)
  from fetch_remote_data_result[OF f assms(3,4)] a
  have "r0 = Inl TypeError" by (simp add: loads_None)
  with a r show ?thesis by (simp add: attr_Nil)
qed

theorem chart_must_be_div_witness:
  "attr (select_div_chart example_span_page) ''data-values'' = attr [] ''data-values''
   \<and> fst (get_month_data example_span_env example_scraper None None example_world)
       = Inl TypeError"
proof -
  define r where "r = fst (get_month_data example_span_env example_scraper None None example_world)"
  define w' where "w' = snd (get_month_data example_span_env example_scraper None None example_world)"
  have 1: "get_month_data example_span_env example_scraper None None
      \<in> fetch_operations example_span_env example_scraper None None None"
    by (simp add: fetch_operations_def)
  have 2: "get_month_data example_span_env example_scraper None None example_world = (r, w')"
    by (simp add: r_def w'_def)
  have 3: "server example_span_env (sent w') = Inr ''data''"
    unfolding w'_def by code_simp
  have 5: "\<forall>n \<in> set (all_elements example_span_page).
           has_class n ''chart'' \<and> map_of (attrs n) ''data-values'' \<noteq> None \<longrightarrow> tag n \<noteq> ''div''"
    by (simp add: all_elements_def example_span_page_def)
  from chart_must_be_div[OF 1 2 3 example_span_parse 5]
  show ?thesis by (simp add: r_def)
qed

text \<open>
  Claim C7. When the period is none of \<^verbatim>\<open>day\<close>, \<^verbatim>\<open>month\<close>, \<^verbatim>\<open>year\<close>, the three
  \<^verbatim>\<open>if\<close> statements raise nothing, leave the world as it was (no URL is built, no
  request is sent) and leave \<^verbatim>\<open>data\<close> unbound; with credentials and meter given, the
  program then stops at the first use of \<^verbatim>\<open>data\<close> with a \<^verbatim>\<open>NameError\<close>, not with an
  error about the argument.
\<close>

theorem unknown_period_is_ignored:
  assumes "opt_period opts \<noteq> ''day''" and "opt_period opts \<noteq> ''month''"
    and "opt_period opts \<noteq> ''year''"
  shows "dispatch E scraper opts w = (Inr None, w)
         \<and> (truthy (opt_username opts) \<and> truthy (opt_password opts) \<and> truthy (opt_meter opts)
            \<longrightarrow> main E opts w = (Inl (NameError ''data''), w))"
proof -
  have d: "dispatch E s opts w = (Inr None, w)" for s
    using assms by (simp add: dispatch_def)
  then show ?thesis by (simp add: main_def)
qed

theorem unknown_period_is_ignored_witness:
  "dispatch example_env example_scraper example_opts example_world = (Inr None, example_world)
   \<and> main example_env example_opts example_world = (Inl (NameError ''data''), example_world)"
proof -
  have h: "opt_period example_opts \<noteq> ''day''" "opt_period example_opts \<noteq> ''month''"
    "opt_period example_opts \<noteq> ''year''"
    by (simp_all add: example_opts_def)
  have t: "truthy (opt_username example_opts) \<and> truthy (opt_password example_opts)
      \<and> truthy (opt_meter example_opts)"
    by (simp add: example_opts_def truthy_def)
  from unknown_period_is_ignored[OF h] t show ?thesis by blast
qed

end
